theory Spec2Isabelle
  imports Complex_Main "HOL-Library.Sublist"
begin

section \<open>Status values and faults\<close>

text \<open>
  \<open>common::Status\<close> carries a status code and an error message. The category argument
  (always \<open>ONNXRUNTIME\<close> in the code modelled here) is left out.
\<close>

datatype StatusCode =
    OK | FAIL | INVALID_ARGUMENT | NO_SUCHFILE | NO_MODEL | ENGINE_ERROR
  | RUNTIME_EXCEPTION | INVALID_PROTOBUF | MODEL_LOADED | NOT_IMPLEMENTED

record Status =
  Code :: StatusCode
  ErrorMessage :: string

definition Status_OK :: Status where
  "Status_OK = \<lparr>Code = OK, ErrorMessage = ''''\<rparr>"

definition MakeStatus :: "StatusCode \<Rightarrow> string \<Rightarrow> Status" where
  "MakeStatus c m = \<lparr>Code = c, ErrorMessage = m\<rparr>"

definition IsOK :: "Status \<Rightarrow> bool" where
  "IsOK st = (Code st = OK)"

text \<open>
  What the C++ leaves undefined (a null pointer dereferenced, a vector or an iterator read
  past its end) and what it throws (\<open>ONNXRUNTIME_ENFORCE\<close>) are values of the model.
\<close>

datatype fault = NullDereference | OutOfRange | EnforceFailed string

section \<open>EyeLike (core/providers/cpu/tensor/eye\_like.cc)\<close>

text \<open>
  A tensor is its shape and its row-major data. \<open>k_\<close> and the dimensions are
  \<open>int64_t\<close>: they are integers here, and \<open>std::abs\<close> is written with the
  two's-complement wrap-around at \<open>INT64_MIN\<close>.
\<close>

record 'a Tensor =
  Shape :: "int list"
  Data :: "'a list"

definition INT64_MAX :: int where
  "INT64_MAX = 2 ^ 63 - 1"

definition INT64_MIN :: int where
  "INT64_MIN = - (2 ^ 63)"

definition is_int64 :: "int \<Rightarrow> bool" where
  "is_int64 v = (INT64_MIN \<le> v \<and> v \<le> INT64_MAX)"

definition std_abs :: "int \<Rightarrow> int" where
  "std_abs v = (if v = INT64_MIN then INT64_MIN else \<bar>v\<bar>)"

text \<open>
  \<open>output_mat.diagonal(k).array() = v\<close> on a \<open>rows \<times> cols\<close> row-major matrix: the
  \<open>k\<close>-th diagonal holds the entries \<open>(i, i + k)\<close> for \<open>k \<ge> 0\<close> and \<open>(i - k, i)\<close>
  otherwise; it has \<open>min rows (cols - k)\<close>, respectively \<open>min cols (rows + k)\<close>, entries,
  and none when that number is not positive.
\<close>

definition diagonal_size :: "int \<Rightarrow> int \<Rightarrow> int \<Rightarrow> nat" where
  "diagonal_size k rows cols =
     nat (if k < 0 then min cols (rows + k) else min rows (cols - k))"

definition diagonal_pos :: "int \<Rightarrow> int \<Rightarrow> nat \<Rightarrow> nat" where
  "diagonal_pos k cols i =
     (if k < 0 then nat ((int i - k) * cols + int i) else nat (int i * cols + (int i + k)))"

definition diagonal_assign :: "int \<Rightarrow> int \<Rightarrow> int \<Rightarrow> 'a \<Rightarrow> 'a list \<Rightarrow> 'a list" where
  "diagonal_assign k rows cols v m =
     fold (\<lambda>i acc. acc[diagonal_pos k cols i := v]) [0..<diagonal_size k rows cols] m"

definition setZero :: "int \<Rightarrow> int \<Rightarrow> ('a::zero) list" where
  "setZero rows cols = replicate (nat (rows * cols)) 0"

definition EyeLike_ComputeImpl ::
  "int \<Rightarrow> int list \<Rightarrow> Status \<times> ('a::{zero,one}) Tensor option" where
  "EyeLike_ComputeImpl k input_dims =
     (if length input_dims \<noteq> 2
      then (MakeStatus INVALID_ARGUMENT ''EyeLike : Input tensor dimension is not 2'', None)
      else
        let output_mat = setZero (input_dims ! 0) (input_dims ! 1) in
        if (k \<ge> 0 \<and> k \<ge> input_dims ! 1) \<or> (k < 0 \<and> std_abs k \<ge> input_dims ! 0)
        then (Status_OK, Some \<lparr>Shape = input_dims, Data = output_mat\<rparr>)
        else (Status_OK,
              Some \<lparr>Shape = input_dims,
                    Data = diagonal_assign k (input_dims ! 0) (input_dims ! 1) 1 output_mat\<rparr>))"

section \<open>InferenceSession (core/session/inference\_session.cc)\<close>

text \<open>
  Run-time types. A declared type is a tensor type over an element type or something else
  (a map, a sequence); \<open>AsTensorType()\<close> is null for the latter.
\<close>

datatype MLDataType = Primitive string | TensorOf MLDataType | NonTensor string

fun AsTensorType_GetElementType :: "MLDataType \<Rightarrow> MLDataType option" where
  "AsTensorType_GetElementType (TensorOf e) = Some e"
| "AsTensorType_GetElementType _ = None"

text \<open>\<open>typeid(*t).name()\<close> is implementation-defined; any rendering will do.\<close>

fun typeid_name :: "MLDataType \<Rightarrow> string" where
  "typeid_name (Primitive n) = n"
| "typeid_name (TensorOf e) = ''Tensor<'' @ typeid_name e @ ''>''"
| "typeid_name (NonTensor n) = n"

record MLValue =
  Type :: MLDataType

definition IsTensor :: "MLValue \<Rightarrow> bool" where
  "IsTensor v = (case Type v of TensorOf e \<Rightarrow> True | _ \<Rightarrow> False)"

record NodeArg =
  Name :: string
  DeclaredType :: MLDataType

text \<open>
  \<open>NameMLValMap\<close> is an \<open>unordered_map\<close>: an association list, looked up with
  \<open>map_of\<close> and iterated in list order. The \<open>unordered_set\<close>s of names are lists
  without duplicates, iterated in insertion order.
\<close>

type_synonym NameMLValMap = "(string \<times> MLValue) list"

record ModelMetadata =
  producer_name :: string
  description :: string
  domain :: string
  version :: int
  custom_metadata_map :: "(string \<times> string) list"
  graph_name :: string

record Model =
  ProducerName :: string
  DocString :: string
  ModelDomain :: string
  ModelVersion :: int
  MetaData :: "(string \<times> string) list"
  GraphName :: string
  GetInputs :: "NodeArg list"
  GetInputsIncludingInitializers :: "NodeArg list"
  GetOutputs :: "NodeArg list"

record Session =
  is_model_loaded :: bool
  is_inited :: bool
  model :: "Model option"
  model_metadata :: ModelMetadata
  required_input_def_list :: "NodeArg list"
  input_def_list :: "NodeArg list"
  output_def_list :: "NodeArg list"
  required_model_input_names :: "string list"
  model_input_names :: "string list"
  model_output_names :: "string list"
  current_num_runs :: int
  profiler_events :: "string list"
  enable_sequential_execution :: bool

definition set_insert :: "'a \<Rightarrow> 'a list \<Rightarrow> 'a list" where
  "set_insert x xs = (if x \<in> set xs then xs else xs @ [x])"

definition EndTimeAndRecordEvent :: "string \<Rightarrow> Session \<Rightarrow> Session" where
  "EndTimeAndRecordEvent ev s = s\<lparr>profiler_events := profiler_events s @ [ev]\<rparr>"

definition SaveModelMetadata :: "Model \<Rightarrow> Session \<Rightarrow> Status \<times> Session" where
  "SaveModelMetadata m s =
     (let s1 = s\<lparr>model_metadata :=
                  \<lparr>producer_name = ProducerName m, description = DocString m,
                   domain = ModelDomain m, version = ModelVersion m,
                   custom_metadata_map = MetaData m, graph_name = GraphName m\<rparr>\<rparr>;
          s2 = fold (\<lambda>elem t. t\<lparr>required_input_def_list := required_input_def_list t @ [elem],
                                required_model_input_names :=
                                  set_insert (Name elem) (required_model_input_names t)\<rparr>)
                 (GetInputs m) s1;
          s3 = fold (\<lambda>elem t. t\<lparr>input_def_list := input_def_list t @ [elem],
                                model_input_names := set_insert (Name elem) (model_input_names t)\<rparr>)
                 (GetInputsIncludingInitializers m) s2;
          s4 = fold (\<lambda>elem t. t\<lparr>output_def_list := output_def_list t @ [elem],
                                model_output_names := set_insert (Name elem) (model_output_names t)\<rparr>)
                 (GetOutputs m) s3
      in (Status_OK, s4))"

definition DoPostLoadProcessing :: "Model \<Rightarrow> Session \<Rightarrow> Status \<times> Session" where
  "DoPostLoadProcessing m s = SaveModelMetadata m s"

text \<open>
  \<open>onnxruntime::Model::Load\<close> is the external model loader: what it does on the given
  argument is a parameter of \<open>Load\<close>. It returns a status, with the model it has put into
  \<open>p_tmp_model\<close> (read only when the status is OK), or it throws.
\<close>

datatype ModelLoad = LoadReturns Status Model | LoadThrowsStd string | LoadThrowsUnknown

definition already_loaded :: Status where
  "already_loaded = MakeStatus MODEL_LOADED ''This session already contains a loaded model.''"

text \<open>The part the four overloads share, from the call of \<open>Model::Load\<close> on.\<close>

definition load_and_process :: "string \<Rightarrow> ModelLoad \<Rightarrow> Session \<Rightarrow> Status \<times> Session" where
  "load_and_process ev ml s =
     (case ml of
        LoadThrowsStd what \<Rightarrow> (MakeStatus FAIL (''Exception during loading: '' @ what), s)
      | LoadThrowsUnknown \<Rightarrow>
          (MakeStatus RUNTIME_EXCEPTION ''Encountered unknown exception in Load()'', s)
      | LoadReturns load_status m \<Rightarrow>
          if \<not> IsOK load_status then (load_status, s)
          else
            (case DoPostLoadProcessing m (s\<lparr>model := Some m\<rparr>) of
               (st, s1) \<Rightarrow>
                 if \<not> IsOK st then (st, s1)
                 else (Status_OK, EndTimeAndRecordEvent ev (s1\<lparr>is_model_loaded := True\<rparr>))))"

definition Load_model_uri :: "ModelLoad \<Rightarrow> Session \<Rightarrow> Status \<times> Session" where
  "Load_model_uri ml s =
     (if is_model_loaded s then (already_loaded, s)
      else load_and_process ''model_loading_uri'' ml s)"

definition Load_model_proto :: "ModelLoad \<Rightarrow> Session \<Rightarrow> Status \<times> Session" where
  "Load_model_proto ml s =
     (if is_model_loaded s then (already_loaded, s)
      else load_and_process ''model_loading_proto'' ml s)"

definition Load_p_model_proto :: "ModelLoad \<Rightarrow> Session \<Rightarrow> Status \<times> Session" where
  "Load_p_model_proto ml s =
     (if is_model_loaded s then (already_loaded, s)
      else load_and_process ''model_loading_proto'' ml s)"

text \<open>The stream overload parses the protobuf itself; \<open>None\<close> is a failed parse.\<close>

definition Load_model_istream :: "ModelLoad option \<Rightarrow> Session \<Rightarrow> Status \<times> Session" where
  "Load_model_istream parsed s =
     (if is_model_loaded s then (already_loaded, s)
      else case parsed of
             None \<Rightarrow> (MakeStatus INVALID_PROTOBUF
                        ''Failed to load model because protobuf parsing failed.'', s)
           | Some ml \<Rightarrow> load_and_process ''model_loading_istream'' ml s)"

text \<open>A session as its constructor leaves it, and a small model, for concrete runs.\<close>

definition new_session :: Session where
  "new_session =
     \<lparr>is_model_loaded = False, is_inited = False, model = None,
      model_metadata = \<lparr>producer_name = [], description = [], domain = [], version = 0,
                        custom_metadata_map = [], graph_name = []\<rparr>,
      required_input_def_list = [], input_def_list = [], output_def_list = [],
      required_model_input_names = [], model_input_names = [], model_output_names = [],
      current_num_runs = 0, profiler_events = [], enable_sequential_execution = True\<rparr>"

definition abs_model :: Model where
  "abs_model =
     \<lparr>ProducerName = ''test'', DocString = [], ModelDomain = [], ModelVersion = 1,
      MetaData = [], GraphName = ''g'',
      GetInputs = [\<lparr>Name = ''X'', DeclaredType = TensorOf (Primitive ''float'')\<rparr>],
      GetInputsIncludingInitializers =
        [\<lparr>Name = ''X'', DeclaredType = TensorOf (Primitive ''float'')\<rparr>,
         \<lparr>Name = ''W'', DeclaredType = TensorOf (Primitive ''float'')\<rparr>],
      GetOutputs = [\<lparr>Name = ''Y'', DeclaredType = TensorOf (Primitive ''float'')\<rparr>]\<rparr>"

definition loaded_session :: Session where
  "loaded_session = snd (Load_model_uri (LoadReturns Status_OK abs_model) new_session)"

section \<open>Graph model\<close>

text \<open>
  A \<open>NodeArg\<close> is owned by the graph and unique by name, so a \<open>NodeArg*\<close> is the name.
  Nodes live in an arena indexed by \<open>NodeIndex\<close>; a removed node leaves an empty slot.
  A node's edges are kept apart from its definitions: rewrites change the definitions, and
  only \<open>Resolve\<close> recomputes the edges. \<open>OutputEdges\<close> lists the target node of every
  output edge (\<open>OutputNodesBegin .. OutputNodesEnd\<close>), \<open>InputEdges\<close> the source of every
  input edge. The type parameter is the scalar type of float attributes and tensor data.
\<close>

datatype AttributeType =
    AttributeType_UNDEFINED | AttributeType_FLOAT | AttributeType_INT | AttributeType_STRING
  | AttributeType_TENSOR | AttributeType_GRAPH | AttributeType_FLOATS | AttributeType_INTS
  | AttributeType_STRINGS | AttributeType_TENSORS | AttributeType_GRAPHS

record 'a AttributeProto =
  attr_type :: AttributeType
  attr_i :: "int option"
  attr_f :: 'a
  attr_ints :: "int list"

record 'a Node =
  Index :: nat
  OpType :: string
  Domain :: string
  OpDeprecated :: bool
  OpSinceVersion :: int
  InputDefs :: "string list"
  OutputDefs :: "string list"
  InputArgCount :: "nat list"
  Attributes :: "(string \<times> 'a AttributeProto) list"
  InputEdges :: "nat list"
  OutputEdges :: "nat list"

record 'a TensorProto =
  tp_name :: string
  tp_dims :: "int list"
  tp_data_type :: int
  tp_data :: "'a list"

record 'a Graph =
  Nodes :: "'a Node option list"
  Initializers :: "'a TensorProto list"
  NodeArgs :: "string list"
  GraphOutputs :: "string list"

text \<open>
  Modelled from the spec: the \<open>Graph\<close> and \<open>Node\<close> member functions (core/graph/graph.h
  and graph.cc are not among the sources). The spec lists lookup by index,
  \<open>GetInitializedTensor(name)\<close>, \<open>RemoveNode(index)\<close>, \<open>AddInitializedTensor\<close>,
  \<open>RemoveInitializedTensor(name)\<close> and \<open>ReplaceDefs(node, map<oldDef, newDef>)\<close>;
  initializers are addressable by name, value definitions are owned by the graph
  (\<open>GetNodeArg\<close>), and a node's output may be a graph output
  (\<open>IsNodeOutputsInGraphOutputs\<close>). \<open>LiveNodes\<close> is the order of \<open>graph.Nodes()\<close>.
\<close>

definition GetNode :: "'a Graph \<Rightarrow> nat \<Rightarrow> 'a Node option" where
  "GetNode g i = (if i < length (Nodes g) then Nodes g ! i else None)"

definition LiveNodes :: "'a Graph \<Rightarrow> nat list" where
  "LiveNodes g = filter (\<lambda>i. Nodes g ! i \<noteq> None) [0..<length (Nodes g)]"

definition RemoveNode :: "'a Graph \<Rightarrow> nat \<Rightarrow> 'a Graph" where
  "RemoveNode g i = g\<lparr>Nodes := (Nodes g)[i := None]\<rparr>"

definition UpdateNode :: "'a Graph \<Rightarrow> nat \<Rightarrow> ('a Node \<Rightarrow> 'a Node) \<Rightarrow> 'a Graph" where
  "UpdateNode g i f =
     (if i < length (Nodes g) then g\<lparr>Nodes := (Nodes g)[i := map_option f (Nodes g ! i)]\<rparr>
      else g)"

definition GetInitializedTensor :: "'a Graph \<Rightarrow> string \<Rightarrow> 'a TensorProto option" where
  "GetInitializedTensor g n = find (\<lambda>t. tp_name t = n) (Initializers g)"

definition RemoveInitializedTensor :: "'a Graph \<Rightarrow> string \<Rightarrow> 'a Graph" where
  "RemoveInitializedTensor g n = g\<lparr>Initializers := filter (\<lambda>t. tp_name t \<noteq> n) (Initializers g)\<rparr>"

definition AddInitializedTensor :: "'a Graph \<Rightarrow> 'a TensorProto \<Rightarrow> 'a Graph" where
  "AddInitializedTensor g t = g\<lparr>Initializers := Initializers g @ [t]\<rparr>"

definition GetNodeArg :: "'a Graph \<Rightarrow> string \<Rightarrow> string option" where
  "GetNodeArg g n = (if n \<in> set (NodeArgs g) then Some n else None)"

definition IsNodeOutputsInGraphOutputs :: "'a Graph \<Rightarrow> 'a Node \<Rightarrow> bool" where
  "IsNodeOutputsInGraphOutputs g n = list_ex (\<lambda>d. d \<in> set (GraphOutputs g)) (OutputDefs n)"

definition replace_def :: "(string \<times> string) list \<Rightarrow> string \<Rightarrow> string" where
  "replace_def replacements d = (case map_of replacements d of Some d' \<Rightarrow> d' | None \<Rightarrow> d)"

definition ReplaceDefs :: "(string \<times> string) list \<Rightarrow> 'a Node \<Rightarrow> 'a Node" where
  "ReplaceDefs replacements n =
     n\<lparr>InputDefs := map (replace_def replacements) (InputDefs n),
       OutputDefs := map (replace_def replacements) (OutputDefs n)\<rparr>"

section \<open>graph\_edit\_utils (core/graph/graph\_utils.cc)\<close>

text \<open>
  The value of \<open>kOnnxDomainAlias\<close>, the default of the \<open>domain\<close> argument, is declared
  outside the sources at hand; nothing proved below depends on it.
\<close>

definition kOnnxDomainAlias :: string where
  "kOnnxDomainAlias = ''ai.onnx''"

definition IsSupportedOptypeVersionAndDomain ::
  "'a Node \<Rightarrow> string \<Rightarrow> int \<Rightarrow> string \<Rightarrow> bool" where
  "IsSupportedOptypeVersionAndDomain node op_type since_version domain_name =
     (if OpType node \<noteq> op_type \<or> OpDeprecated node \<or> OpSinceVersion node \<noteq> since_version \<or>
         (Domain node \<noteq> [] \<and> Domain node \<noteq> domain_name)
      then False else True)"

section \<open>Slice elimination (core/graph/slice\_elimination.cc)\<close>

text \<open>
  Modelled from the spec: \<open>GraphEditor::GetRepeatedNodeAttributeValues\<close> (the
  \<open>GraphEditor\<close> class is not among the sources) yields the integers of the named
  attribute when the node has it. \<open>GraphEditor::IsSingleInSingleOutNode\<close> is a parameter
  of \<open>SatisfyCondition\<close>.
\<close>

definition GetRepeatedNodeAttributeValues :: "'a Node \<Rightarrow> string \<Rightarrow> int list option" where
  "GetRepeatedNodeAttributeValues node attr_name =
     map_option attr_ints (map_of (Attributes node) attr_name)"

definition slice_bounds_trivial :: "int list \<Rightarrow> int list \<Rightarrow> int list \<Rightarrow> bool" where
  "slice_bounds_trivial starts ends axes =
     list_all (\<lambda>i. \<not> (starts ! i > 0 \<or> starts ! i < 0 \<or> (ends ! i > 0 \<and> ends ! i < INT64_MAX)))
       [0..<length axes]"

definition EliminateSlice_SatisfyCondition :: "('a Node \<Rightarrow> bool) \<Rightarrow> 'a Node \<Rightarrow> bool" where
  "EliminateSlice_SatisfyCondition IsSingleInSingleOutNode node =
     (if \<not> IsSingleInSingleOutNode node then False
      else case GetRepeatedNodeAttributeValues node ''starts'' of
        None \<Rightarrow> False
      | Some starts \<Rightarrow>
         (case GetRepeatedNodeAttributeValues node ''ends'' of
            None \<Rightarrow> False
          | Some ends \<Rightarrow>
             if length starts \<noteq> length ends then False
             else (case GetRepeatedNodeAttributeValues node ''axes'' of
                     None \<Rightarrow> slice_bounds_trivial starts ends (map int [0..<length starts])
                   | Some axes \<Rightarrow>
                       if length axes \<noteq> length starts \<or> length axes \<noteq> length ends then False
                       else slice_bounds_trivial starts ends axes)))"

text \<open>A Slice node with one input edge and one output edge, for concrete runs.\<close>

definition ints_attr :: "int list \<Rightarrow> int AttributeProto" where
  "ints_attr vs = \<lparr>attr_type = AttributeType_INTS, attr_i = None, attr_f = 0, attr_ints = vs\<rparr>"

definition slice_node :: "int list \<Rightarrow> int list \<Rightarrow> int Node" where
  "slice_node starts ends =
     \<lparr>Index = 1, OpType = ''Slice'', Domain = [], OpDeprecated = False, OpSinceVersion = 1,
      InputDefs = [''X''], OutputDefs = [''Y''], InputArgCount = [1],
      Attributes = [(''starts'', ints_attr starts), (''ends'', ints_attr ends)],
      InputEdges = [0], OutputEdges = [2]\<rparr>"

definition one_edge_in_out :: "'a Node \<Rightarrow> bool" where
  "one_edge_in_out n = (length (InputEdges n) = 1 \<and> length (OutputEdges n) = 1)"

section \<open>ReverseSequence (contrib\_ops/cpu/reverse\_sequence.cc, the complete version)\<close>

text \<open>
  Offsets and sizes are \<open>int64_t\<close>, integers here. \<open>x\<close> is the input buffer, \<open>y\<close> the
  output buffer; a write \<open>y[p] = v\<close> is a list update. The output buffer comes from the
  allocator with unspecified contents, so its initial contents are a parameter.
\<close>

text \<open>\<open>EigenVectorMap(y + dst, width) = ConstEigenVectorMap(x + src, width)\<close>.\<close>

definition assign_vector :: "'a list \<Rightarrow> 'a list \<Rightarrow> int \<Rightarrow> int \<Rightarrow> int \<Rightarrow> 'a list" where
  "assign_vector y x dst src width =
     fold (\<lambda>c acc. acc[nat (dst + int c) := x ! nat (src + int c)]) [0..<nat width] y"

text \<open>
  \<open>EigenMatrixMapRowMajor(y + dst, rows, width) =
     ConstEigenMatrixMapRowMajor(x + src, rows, width).colwise().reverse()\<close>:
  row \<open>r\<close> of the target is row \<open>rows - 1 - r\<close> of the source.
\<close>

definition assign_colwise_reverse :: "'a list \<Rightarrow> 'a list \<Rightarrow> int \<Rightarrow> int \<Rightarrow> int \<Rightarrow> int \<Rightarrow> 'a list" where
  "assign_colwise_reverse y x dst src rows width =
     fold (\<lambda>r acc. assign_vector acc x (dst + int r * width) (src + (rows - 1 - int r) * width) width)
       [0..<nat rows] y"

text \<open>The loop that merges the dimensions into \<open>[h, B/S, m, S/B, t]\<close>.\<close>

definition merge_dims_step ::
  "int \<Rightarrow> int \<Rightarrow> int list \<Rightarrow> nat \<Rightarrow> int list \<times> nat \<times> int \<Rightarrow> int list \<times> nat \<times> int" where
  "merge_dims_step batch_axis seq_axis dims i st =
     (case st of (s, meet, merged_batch_size) \<Rightarrow>
        if int i = batch_axis then (s, meet + 1, merged_batch_size * s ! meet)
        else if int i = seq_axis then (s, meet + 1, merged_batch_size)
        else (s[meet := s ! meet * dims ! i], meet, merged_batch_size))"

definition merge_dims :: "int \<Rightarrow> int \<Rightarrow> int list \<Rightarrow> int \<Rightarrow> int list \<times> nat \<times> int" where
  "merge_dims batch_axis seq_axis dims batch_size =
     fold (merge_dims_step batch_axis seq_axis dims) [0..<length dims] ([1, 1, 1], 0, batch_size)"

text \<open>The body of the \<open>pre\<close> loop when the batch axis comes first.\<close>

definition reverse_batch_first :: "'a list \<Rightarrow> 'a list \<Rightarrow> int \<Rightarrow> int \<Rightarrow> int \<Rightarrow> int \<Rightarrow> int \<Rightarrow> 'a list" where
  "reverse_batch_first y x pre_seq_pos seq_len seq_size seq_strides width =
     (let y1 = assign_colwise_reverse y x pre_seq_pos pre_seq_pos seq_len width
      in assign_colwise_reverse y1 x (pre_seq_pos + seq_strides * seq_len)
           (pre_seq_pos + seq_strides * seq_len) (seq_size - seq_len) width)"

text \<open>The body of the \<open>pre\<close> loop when the sequence axis comes first; the state is \<open>(y, offset)\<close>.\<close>

definition reverse_seq_first :: "'a list \<Rightarrow> 'a list \<Rightarrow> int \<Rightarrow> int \<Rightarrow> int \<Rightarrow> int \<Rightarrow> int \<Rightarrow> 'a list" where
  "reverse_seq_first y x pre_seq_pos seq_len seq_size seq_strides width =
     (let st1 = fold (\<lambda>seq (acc, offset).
                        (assign_vector acc x (pre_seq_pos + seq_strides * (seq_len - int seq - 1))
                           offset width,
                         offset + seq_strides))
                  [0..<nat seq_len] (y, pre_seq_pos);
          st2 = fold (\<lambda>seq (acc, offset).
                        (assign_vector acc x offset offset width, offset + seq_strides))
                  [nat seq_len..<nat seq_size] st1
      in fst st2)"

definition ReverseSequence_ComputeImpl ::
  "int \<Rightarrow> int \<Rightarrow> 'a Tensor \<Rightarrow> int Tensor \<Rightarrow> 'a list \<Rightarrow> fault + Status \<times> 'a Tensor" where
  "ReverseSequence_ComputeImpl seq_axis batch_axis input seq_lengths y0 =
     (let dims = Shape input; num_dims = int (length dims) in
      if \<not> seq_axis < num_dims
        then Inl (EnforceFailed ''Input number of dims should greater than seq_axis'')
      else if \<not> batch_axis < num_dims
        then Inl (EnforceFailed ''Input number of dims should greater than batch_axis_'')
      else
      let batch_size = dims ! nat batch_axis;
          seq_size = dims ! nat seq_axis;
          seq_lengths_ndims = length (Shape seq_lengths) in
      if \<not> (seq_lengths_ndims = 0 \<or> seq_lengths_ndims = 1)
        then Inl (EnforceFailed ''seq_lengths must be 0-D or 1-D tensor'')
      else
      let seq_lengths_size = prod_list (Shape seq_lengths) in
      if \<not> (seq_lengths_size = batch_size \<or> seq_lengths_size = 1)
        then Inl (EnforceFailed ''Wrong seq_lengths Size'')
      else
      let seq_lengths_value = Data seq_lengths in
      if \<not> list_all (\<lambda>i. seq_lengths_value ! i > 0 \<and> seq_lengths_value ! i \<le> seq_size)
               [0..<nat seq_lengths_size]
        then Inl (EnforceFailed ''Each seq_len should > 0 and <= seq_size'')
      else
      (case merge_dims batch_axis seq_axis dims batch_size of
        (s, meet, merged_batch_size) \<Rightarrow>
          let width = s ! 2;
              pre_seq_size = (if batch_axis < seq_axis then s ! 1 else s ! 0);
              seq_strides = (if batch_axis < seq_axis then s ! 2 else s ! 2 * merged_batch_size);
              pre_seq_strides = seq_strides * seq_size;
              merged_batch_strides =
                (if batch_axis < seq_axis then pre_seq_strides * pre_seq_size else s ! 2);
              x = Data input;
              y = fold (\<lambda>merged_batch acc.
                     let batch = int merged_batch mod batch_size;
                         seq_len = seq_lengths_value ! nat (batch mod seq_lengths_size);
                         mb_pos = int merged_batch * merged_batch_strides
                     in fold (\<lambda>pre acc'.
                          let pre_seq_pos = mb_pos + int pre * pre_seq_strides
                          in if batch_axis < seq_axis
                             then reverse_batch_first acc' x pre_seq_pos seq_len seq_size
                                    seq_strides width
                             else reverse_seq_first acc' x pre_seq_pos seq_len seq_size
                                    seq_strides width)
                          [0..<nat pre_seq_size] acc)
                   [0..<nat merged_batch_size] y0
          in Inr (Status_OK, \<lparr>Shape = dims, Data = y\<rparr>)))"

text \<open>
  The positions that \<open>ReverseSequence\<close> is to produce on a \<open>[batch, seq, width]\<close> input with
  the batch axis 0 and the sequence axis 1: the first \<open>seq_lengths[b]\<close> positions of batch
  \<open>b\<close> reversed, the rest as they are. It follows the words of the specification and serves
  to compare the code with.
\<close>

definition reverse_sequence_spec :: "nat \<Rightarrow> nat \<Rightarrow> nat \<Rightarrow> nat list \<Rightarrow> 'a list \<Rightarrow> 'a list" where
  "reverse_sequence_spec batch seq width lens x =
     map (\<lambda>p. let b = p div (seq * width); t = (p mod (seq * width)) div width; c = p mod width
               in if t < lens ! b then x ! (b * seq * width + (lens ! b - 1 - t) * width + c)
                  else x ! p)
       [0..<batch * seq * width]"

section \<open>InferenceSession::Run\<close>

definition CheckTypes :: "MLDataType \<Rightarrow> MLDataType \<Rightarrow> Status" where
  "CheckTypes actual expected =
     (if actual = expected then Status_OK
      else MakeStatus INVALID_ARGUMENT
             (''Unexpected input data type. Actual: ('' @ typeid_name actual @
              '') , expected: ('' @ typeid_name expected @ '')''))"

text \<open>
  The loop of \<open>ValidateInputTypes\<close> over \<open>input_def_list_\<close>. A tensor fed for an input
  whose declared type is not a tensor type makes \<open>expected_type->AsTensorType()\<close> null, and
  the code dereferences it.
\<close>

fun ValidateInputTypes_loop :: "NodeArg list \<Rightarrow> NameMLValMap \<Rightarrow> fault + Status" where
  "ValidateInputTypes_loop [] feeds = Inr Status_OK"
| "ValidateInputTypes_loop (arg # args) feeds =
     (case map_of feeds (Name arg) of
        None \<Rightarrow> ValidateInputTypes_loop args feeds
      | Some input_ml_value \<Rightarrow>
          if Name arg = [] then ValidateInputTypes_loop args feeds
          else if \<not> IsTensor input_ml_value then
            (let retval = CheckTypes (Type input_ml_value) (DeclaredType arg)
             in if \<not> IsOK retval then Inr retval else ValidateInputTypes_loop args feeds)
          else
            (case AsTensorType_GetElementType (DeclaredType arg) of
               None \<Rightarrow> Inl NullDereference
             | Some expected_element_type \<Rightarrow>
                 (case AsTensorType_GetElementType (Type input_ml_value) of
                    None \<Rightarrow> Inl NullDereference
                  | Some input_element_type \<Rightarrow>
                      let retval = CheckTypes input_element_type expected_element_type
                      in if \<not> IsOK retval then Inr retval
                         else ValidateInputTypes_loop args feeds)))"

definition ValidateInputTypes :: "Session \<Rightarrow> NameMLValMap \<Rightarrow> fault + Status" where
  "ValidateInputTypes s feeds = ValidateInputTypes_loop (input_def_list s) feeds"

definition missing_required_inputs :: "string list \<Rightarrow> NameMLValMap \<Rightarrow> string" where
  "missing_required_inputs required feeds =
     fold (\<lambda>required_input acc.
             if map_of feeds required_input = None
             then (if acc \<noteq> [] then acc @ '','' else acc) @ required_input
             else acc)
       required []"

definition invalid_feed_names :: "string list \<Rightarrow> NameMLValMap \<Rightarrow> bool \<times> string" where
  "invalid_feed_names names feeds =
     fold (\<lambda>pair (valid, invalid_names).
             if fst pair \<notin> set names then (False, invalid_names @ '' '' @ fst pair)
             else (valid, invalid_names))
       feeds (True, [])"

definition join_names :: "string list \<Rightarrow> string" where
  "join_names names = fold (\<lambda>elem ostr. ostr @ elem @ '' '') names []"

definition ValidateInputNames :: "Session \<Rightarrow> NameMLValMap \<Rightarrow> Status" where
  "ValidateInputNames s feeds =
     (let missing = missing_required_inputs (required_model_input_names s) feeds in
      if missing \<noteq> [] then MakeStatus INVALID_ARGUMENT (''Missing required inputs: '' @ missing)
      else case invalid_feed_names (model_input_names s) feeds of
        (valid, invalid_names) \<Rightarrow>
          if \<not> valid
          then MakeStatus INVALID_ARGUMENT
                 (''Invalid Feed Input Names:'' @ invalid_names @
                  ''. Valid input names are: '' @ join_names (model_input_names s))
          else Status_OK)"

definition ValidateInputs :: "Session \<Rightarrow> NameMLValMap \<Rightarrow> fault + Status" where
  "ValidateInputs s feeds =
     (let st = ValidateInputNames s feeds in
      if \<not> IsOK st then Inr st else ValidateInputTypes s feeds)"

definition invalid_output_names :: "string list \<Rightarrow> string list \<Rightarrow> bool \<times> string" where
  "invalid_output_names names output_names =
     fold (\<lambda>n (valid, invalid_names).
             if n \<notin> set names then (False, invalid_names @ '' '' @ n)
             else (valid, invalid_names))
       output_names (True, [])"

text \<open>
  \<open>p_fetches\<close> is a pointer: \<open>None\<close> is the null pointer. The message about a wrongly
  sized output vector is given without the two sizes that the code prints into it.
\<close>

definition ValidateOutputs :: "Session \<Rightarrow> string list \<Rightarrow> MLValue list option \<Rightarrow> Status" where
  "ValidateOutputs s output_names p_fetches =
     (case p_fetches of
        None \<Rightarrow> MakeStatus INVALID_ARGUMENT ''Output vector pointer is NULL''
      | Some fetches \<Rightarrow>
          if output_names = []
          then MakeStatus INVALID_ARGUMENT ''At least one output should be requested.''
          else if fetches \<noteq> [] \<and> length output_names \<noteq> length fetches
          then MakeStatus INVALID_ARGUMENT ''Output vector incorrectly sized''
          else case invalid_output_names (model_output_names s) output_names of
            (valid, invalid_names) \<Rightarrow>
              if \<not> valid
              then MakeStatus INVALID_ARGUMENT
                     (''Invalid Output Names:'' @ invalid_names @
                      '' Valid output names are: '' @ join_names (model_output_names s))
              else Status_OK)"

text \<open>
  What \<open>Run\<close> calls outside the session object: the providers' \<open>OnRunStart\<close> and
  \<open>OnRunEnd\<close>, the copies across devices, \<open>MatchOutputsWithProviders\<close> and the executor.
  Their results on the arguments of the call are parameters of \<open>Run\<close>; those inside the
  \<open>try\<close> block may throw. \<open>Run\<close> returns the trace of the calls it made, so that
  "no node was executed" is "the trace has no \<open>CallExecute\<close>". Logging and the per-run
  logger are left out: they do not touch the session's members or the status.
\<close>

datatype CallResult = Returns Status | ThrowsStd string | ThrowsOther

datatype Call =
    CallOnRunStart nat | CallCopyInputsAcrossDevices | CallMatchOutputsWithProviders
  | CallExecute | CallCopyOutputsAcrossDevices | CallOnRunEnd nat

record RunEnv =
  OnRunStart :: "CallResult list"
  OnRunEnd :: "Status list"
  CopyInputsAcrossDevices :: CallResult
  MatchOutputsWithProviders :: CallResult
  Execute :: CallResult
  CopyOutputsAcrossDevices :: CallResult

text \<open>
  Modelled from the spec: the macro \<open>ONNXRUNTIME_CHECK_AND_SET_RETVAL\<close> (core/common is
  not among the sources) evaluates its argument and assigns it to \<open>retval\<close> only while
  \<open>retval\<close> is OK; the spec has every Validate check fail fast before any execution.
  \<open>run_calls\<close> is a run of such statements inside the \<open>try\<close> block: a call that throws
  ends the block with the status of the matching \<open>catch\<close>.
\<close>

fun run_calls :: "(Call \<times> CallResult) list \<Rightarrow> Status \<times> Call list \<Rightarrow> Status \<times> Call list" where
  "run_calls [] st = st"
| "run_calls ((c, r) # rest) (retval, calls) =
     (if IsOK retval then
        (case r of
           Returns st \<Rightarrow> run_calls rest (st, calls @ [c])
         | ThrowsStd what \<Rightarrow> (MakeStatus FAIL what, calls @ [c])
         | ThrowsOther \<Rightarrow>
             (MakeStatus RUNTIME_EXCEPTION ''Encountered unknown exception in Run()'',
              calls @ [c]))
      else run_calls rest (retval, calls))"

fun run_end_calls :: "(Call \<times> Status) list \<Rightarrow> Status \<times> Call list \<Rightarrow> Status \<times> Call list" where
  "run_end_calls [] st = st"
| "run_end_calls ((c, r) # rest) (retval, calls) =
     (if IsOK retval then run_end_calls rest (r, calls @ [c])
      else run_end_calls rest (retval, calls))"

definition Run ::
  "RunEnv \<Rightarrow> Session \<Rightarrow> NameMLValMap \<Rightarrow> string list \<Rightarrow> MLValue list option
     \<Rightarrow> fault + Status \<times> Session \<times> Call list" where
  "Run env s feeds output_names p_fetches =
     (let retval0 = (if \<not> is_inited s then MakeStatus FAIL ''Session not initialized.''
                     else Status_OK)
      in case (if IsOK retval0 then ValidateInputs s feeds else Inr retval0) of
        Inl f \<Rightarrow> Inl f
      | Inr retval1 \<Rightarrow>
          let retval2 = (if IsOK retval1 then ValidateOutputs s output_names p_fetches
                         else retval1);
              s1 = s\<lparr>current_num_runs := current_num_runs s + 1\<rparr>;
              tried = run_calls
                        (map (\<lambda>(i, r). (CallOnRunStart i, r)) (enumerate 0 (OnRunStart env)) @
                         [(CallCopyInputsAcrossDevices, CopyInputsAcrossDevices env),
                          (CallMatchOutputsWithProviders, MatchOutputsWithProviders env),
                          (CallExecute, Execute env),
                          (CallCopyOutputsAcrossDevices, CopyOutputsAcrossDevices env)])
                        (retval2, []);
              ended = run_end_calls
                        (map (\<lambda>(i, r). (CallOnRunEnd i, r)) (enumerate 0 (OnRunEnd env))) tried;
              s2 = EndTimeAndRecordEvent ''model_run''
                     (s1\<lparr>current_num_runs := current_num_runs s1 - 1\<rparr>)
          in Inr (fst ended, s2, snd ended))"

text \<open>
  The inputs that offend \<open>ValidateInputNames\<close>: the required names that the feeds omit and
  the fed names that the model does not have.
\<close>

definition missing_names :: "Session \<Rightarrow> NameMLValMap \<Rightarrow> string list" where
  "missing_names s feeds = filter (\<lambda>n. map_of feeds n = None) (required_model_input_names s)"

definition unknown_names :: "Session \<Rightarrow> NameMLValMap \<Rightarrow> string list" where
  "unknown_names s feeds = filter (\<lambda>n. n \<notin> set (model_input_names s)) (map fst feeds)"

text \<open>A status names the offending inputs when each of their names occurs in its message.\<close>

definition names_offending_inputs :: "Session \<Rightarrow> NameMLValMap \<Rightarrow> Status \<Rightarrow> bool" where
  "names_offending_inputs s feeds st =
     list_all (\<lambda>n. sublist n (ErrorMessage st)) (missing_names s feeds @ unknown_names s feeds)"

text \<open>An initialized session, a CPU provider and an executor that succeed, and a float tensor.\<close>

definition unnamed_input_session :: Session where
  "unnamed_input_session =
     new_session\<lparr>is_model_loaded := True, is_inited := True,
                  required_model_input_names := [[]], model_input_names := [[]],
                  model_output_names := [''Y'']\<rparr>"

definition inited_session :: Session where
  "inited_session = loaded_session\<lparr>is_inited := True\<rparr>"

definition cpu_env :: RunEnv where
  "cpu_env =
     \<lparr>OnRunStart = [Returns Status_OK], OnRunEnd = [Status_OK],
      CopyInputsAcrossDevices = Returns Status_OK,
      MatchOutputsWithProviders = Returns Status_OK,
      Execute = Returns Status_OK,
      CopyOutputsAcrossDevices = Returns Status_OK\<rparr>"

definition float_tensor :: MLValue where
  "float_tensor = \<lparr>Type = TensorOf (Primitive ''float'')\<rparr>"

section \<open>GraphTransformerManager::ApplyAll\<close>

text \<open>
  Modelled from the spec: \<open>GraphTransformerManager::ApplyAll\<close> (only the class declaration,
  with \<open>steps_\<close> and \<open>transformers_\<close>, is among the sources). The spec: repeat the whole
  pipeline until no transformer reports modification or the step cap is reached; after any
  transformer reports modified, the engine re-runs \<open>graph.Resolve()\<close> before the next pass;
  any rule returning a non-OK status aborts the whole pipeline with that status. A
  transformer maps a graph to a status, the graph it leaves and whether it modified it.
  The result carries, for every pass started, whether it reported a modification.
\<close>

type_synonym 'g GraphTransformer = "'g \<Rightarrow> Status \<times> 'g \<times> bool"

fun apply_pipeline :: "'g GraphTransformer list \<Rightarrow> 'g \<Rightarrow> bool \<Rightarrow> Status \<times> 'g \<times> bool" where
  "apply_pipeline [] g changed = (Status_OK, g, changed)"
| "apply_pipeline (t # ts) g changed =
     (case t g of (st, g1, modified) \<Rightarrow>
        if \<not> IsOK st then (st, g1, changed \<or> modified)
        else apply_pipeline ts g1 (changed \<or> modified))"

fun ApplyAll_from ::
  "nat \<Rightarrow> 'g GraphTransformer list \<Rightarrow> ('g \<Rightarrow> Status \<times> 'g) \<Rightarrow> 'g \<Rightarrow> bool list
     \<Rightarrow> Status \<times> 'g \<times> bool list" where
  "ApplyAll_from 0 ts resolve g passes = (Status_OK, g, passes)"
| "ApplyAll_from (Suc n) ts resolve g passes =
     (case apply_pipeline ts g False of (st, g1, changed) \<Rightarrow>
        if \<not> IsOK st then (st, g1, passes @ [changed])
        else if \<not> changed then (Status_OK, g1, passes @ [False])
        else (case resolve g1 of (rst, g2) \<Rightarrow>
                if \<not> IsOK rst then (rst, g2, passes @ [True])
                else ApplyAll_from n ts resolve g2 (passes @ [True])))"

definition ApplyAll ::
  "nat \<Rightarrow> 'g GraphTransformer list \<Rightarrow> ('g \<Rightarrow> Status \<times> 'g) \<Rightarrow> 'g \<Rightarrow> Status \<times> 'g \<times> bool list" where
  "ApplyAll steps ts resolve g = ApplyAll_from steps ts resolve g []"

text \<open>A transformer on counters that counts down to 0, for concrete runs.\<close>

definition count_down :: "nat GraphTransformer" where
  "count_down n = (Status_OK, n - 1, n > 0)"

section \<open>Identity elimination (core/graph/identity\_elimination.cc)\<close>

definition EliminateIdentity_SatisfyCondition :: "'a Graph \<Rightarrow> 'a Node \<Rightarrow> bool" where
  "EliminateIdentity_SatisfyCondition graph node = True"

text \<open>
  \<open>Apply\<close> reads \<open>InputDefs()[0]\<close> and \<open>OutputDefs()[0]\<close>; on a node without inputs or
  outputs that is a read past the end. The loop runs over the node's output edges.
\<close>

definition EliminateIdentity_Apply ::
  "'a Graph \<Rightarrow> 'a Node \<Rightarrow> bool \<Rightarrow> fault + Status \<times> 'a Graph \<times> bool" where
  "EliminateIdentity_Apply graph node modified =
     (case InputDefs node of
        [] \<Rightarrow> Inl OutOfRange
      | id_input # _ \<Rightarrow>
         (case OutputDefs node of
            [] \<Rightarrow> Inl OutOfRange
          | id_output # _ \<Rightarrow>
              let replacement_defs = [(id_output, id_input)];
                  looped = fold (\<lambda>it (g, m). (UpdateNode g it (ReplaceDefs replacement_defs), True))
                             (OutputEdges node) (graph, modified)
              in Inr (Status_OK, RemoveNode (fst looped) (Index node), snd looped)))"

text \<open>The graph \<open>Abs \<rightarrow> Identity \<rightarrow> Max\<close> of the specification's scenario.\<close>

definition plain_node :: "nat \<Rightarrow> string \<Rightarrow> string list \<Rightarrow> string list \<Rightarrow> nat list \<Rightarrow> nat list \<Rightarrow> int Node" where
  "plain_node i op ins outs in_edges out_edges =
     \<lparr>Index = i, OpType = op, Domain = [], OpDeprecated = False, OpSinceVersion = 1,
      InputDefs = ins, OutputDefs = outs, InputArgCount = map (\<lambda>_. 1) ins,
      Attributes = [], InputEdges = in_edges, OutputEdges = out_edges\<rparr>"

definition abs_id_max :: "int Graph" where
  "abs_id_max =
     \<lparr>Nodes = [Some (plain_node 0 ''Abs'' [''X''] [''A''] [] [1]),
               Some (plain_node 1 ''Identity'' [''A''] [''I''] [0] [2]),
               Some (plain_node 2 ''Max'' [''I'', ''I''] [''Y''] [1, 1] [])],
      Initializers = [], NodeArgs = [''X'', ''A'', ''I'', ''Y''], GraphOutputs = [''Y'']\<rparr>"

section \<open>Conv fusions (core/graph/conv\_bn\_fusion.cc, conv\_mul\_fusion.cc)\<close>

text \<open>
  The tensors are float or double; the arithmetic on their elements is a parameter, so
  that what is proved holds for floating-point arithmetic as for any other.
\<close>

record 'a ScalarOps =
  op_add :: "'a \<Rightarrow> 'a \<Rightarrow> 'a"
  op_sub :: "'a \<Rightarrow> 'a \<Rightarrow> 'a"
  op_mul :: "'a \<Rightarrow> 'a \<Rightarrow> 'a"
  op_div :: "'a \<Rightarrow> 'a \<Rightarrow> 'a"
  op_sqrt :: "'a \<Rightarrow> 'a"

text \<open>
  Modelled from the spec: the class \<open>Initializer\<close> (core/graph/initializer.h is not among
  the sources). An initializer is a constant tensor of a supported element type, float or
  double for the fusions; it is made from a \<open>TensorProto\<close> and written back by \<open>ToProto\<close>
  with the same name, dimensions and type. \<open>add\<close>, \<open>sub\<close>, \<open>mul\<close>, \<open>div\<close> and \<open>sqrt\<close>
  work element by element; \<open>scale_by_axis(other, axis)\<close> multiplies every block of
  \<open>dims[axis] * ... * dims[n-1]\<close> consecutive elements by one element of \<open>other\<close>
  (for \<open>axis = 1\<close>: the output channel's factor), or all of them by the only element of a
  scalar \<open>other\<close>.
\<close>

definition TensorProto_DataType_FLOAT :: int where
  "TensorProto_DataType_FLOAT = 1"

definition TensorProto_DataType_DOUBLE :: int where
  "TensorProto_DataType_DOUBLE = 11"

definition IsSupportedDataType :: "'a TensorProto option \<Rightarrow> bool" where
  "IsSupportedDataType tensor_proto =
     (case tensor_proto of
        None \<Rightarrow> False
      | Some t \<Rightarrow> tp_data_type t = TensorProto_DataType_FLOAT \<or>
                  tp_data_type t = TensorProto_DataType_DOUBLE)"

definition Initializer_add_scalar :: "'a ScalarOps \<Rightarrow> 'a TensorProto \<Rightarrow> 'a \<Rightarrow> 'a TensorProto" where
  "Initializer_add_scalar ops t v = t\<lparr>tp_data := map (\<lambda>x. op_add ops x v) (tp_data t)\<rparr>"

definition Initializer_sqrt :: "'a ScalarOps \<Rightarrow> 'a TensorProto \<Rightarrow> 'a TensorProto" where
  "Initializer_sqrt ops t = t\<lparr>tp_data := map (op_sqrt ops) (tp_data t)\<rparr>"

definition Initializer_add :: "'a ScalarOps \<Rightarrow> 'a TensorProto \<Rightarrow> 'a TensorProto \<Rightarrow> 'a TensorProto" where
  "Initializer_add ops t other = t\<lparr>tp_data := map2 (op_add ops) (tp_data t) (tp_data other)\<rparr>"

definition Initializer_sub :: "'a ScalarOps \<Rightarrow> 'a TensorProto \<Rightarrow> 'a TensorProto \<Rightarrow> 'a TensorProto" where
  "Initializer_sub ops t other = t\<lparr>tp_data := map2 (op_sub ops) (tp_data t) (tp_data other)\<rparr>"

definition Initializer_mul :: "'a ScalarOps \<Rightarrow> 'a TensorProto \<Rightarrow> 'a TensorProto \<Rightarrow> 'a TensorProto" where
  "Initializer_mul ops t other = t\<lparr>tp_data := map2 (op_mul ops) (tp_data t) (tp_data other)\<rparr>"

definition Initializer_div :: "'a ScalarOps \<Rightarrow> 'a TensorProto \<Rightarrow> 'a TensorProto \<Rightarrow> 'a TensorProto" where
  "Initializer_div ops t other = t\<lparr>tp_data := map2 (op_div ops) (tp_data t) (tp_data other)\<rparr>"

definition scaled_by_axis :: "'a ScalarOps \<Rightarrow> int list \<Rightarrow> 'a list \<Rightarrow> 'a list \<Rightarrow> nat \<Rightarrow> 'a list" where
  "scaled_by_axis ops dims xs factors axis =
     map (\<lambda>(p, x). op_mul ops x
                     (factors ! (if length factors = 1 then 0
                                 else p div nat (prod_list (drop axis dims)))))
       (enumerate 0 xs)"

definition Initializer_scale_by_axis ::
  "'a ScalarOps \<Rightarrow> 'a TensorProto \<Rightarrow> 'a TensorProto \<Rightarrow> nat \<Rightarrow> 'a TensorProto" where
  "Initializer_scale_by_axis ops t other axis =
     t\<lparr>tp_data := scaled_by_axis ops (tp_dims t) (tp_data t) (tp_data other) axis\<rparr>"

text \<open>
  One pass of a loop body either goes on to the next node with the graph and the list
  \<open>removed_nodes\<close> (also after \<open>continue\<close>), or returns a status from \<open>Apply\<close>, or does
  something undefined. A status is returned together with the graph as it is by then.
\<close>

datatype 'g Step = Continue 'g | Return Status 'g | Fault fault

text \<open>
  The loop that replaces, in the nodes that follow node \<open>X\<close>, the output of \<open>X\<close> by the
  output of Conv. An output edge to a node that the graph does not have makes \<open>Apply\<close>
  return INVALID\_ARGUMENT.
\<close>

fun replace_following_inputs :: "nat list \<Rightarrow> string \<Rightarrow> string \<Rightarrow> 'a Graph \<Rightarrow> bool \<times> 'a Graph" where
  "replace_following_inputs [] old_def new_def graph = (True, graph)"
| "replace_following_inputs (it # rest) old_def new_def graph =
     (case GetNode graph it of
        None \<Rightarrow> (False, graph)
      | Some output_node \<Rightarrow>
          replace_following_inputs rest old_def new_def
            (UpdateNode graph it
               (\<lambda>n. n\<lparr>InputDefs := map (\<lambda>d. if d = old_def then new_def else d) (InputDefs n)\<rparr>)))"

definition replace_and_record ::
  "'a Graph \<Rightarrow> nat list \<Rightarrow> 'a Node \<Rightarrow> 'a Node \<Rightarrow> ('a Graph \<times> nat list) Step" where
  "replace_and_record graph removed_nodes conv_node x_node =
     (case OutputDefs x_node of
        [] \<Rightarrow> Fault OutOfRange
      | x_output_def # _ \<Rightarrow>
         (case OutputDefs conv_node of
            [] \<Rightarrow> Fault OutOfRange
          | conv_output_def # _ \<Rightarrow>
             (case replace_following_inputs (OutputEdges x_node) x_output_def conv_output_def graph of
                (False, g) \<Rightarrow> Return (MakeStatus INVALID_ARGUMENT []) (g, removed_nodes)
              | (True, g) \<Rightarrow> Continue (g, removed_nodes @ [Index x_node]))))"

text \<open>
  Lines 106 to 173 of \<open>ConvBNFusion::Apply\<close>: the new initializers and the rewiring.
  \<open>conv_node.MutableInputArgsCount()[2] = 1\<close> writes past the end of the vector when it has
  fewer than three entries.
\<close>

definition ConvBNFusion_update ::
  "'a ScalarOps \<Rightarrow> 'a Graph \<Rightarrow> nat list \<Rightarrow> 'a Node \<Rightarrow> 'a Node \<Rightarrow> 'a
     \<Rightarrow> 'a TensorProto \<Rightarrow> 'a TensorProto \<Rightarrow> 'a TensorProto \<Rightarrow> 'a TensorProto \<Rightarrow> 'a TensorProto
     \<Rightarrow> 'a TensorProto option \<Rightarrow> ('a Graph \<times> nat list) Step" where
  "ConvBNFusion_update ops graph removed_nodes conv_node bn_node epsilon
       bn_scale bn_B bn_mean bn_var conv_W conv_B_opt =
     (let bn_var1 = Initializer_sqrt ops (Initializer_add_scalar ops bn_var epsilon);
          bn_scale1 = Initializer_div ops bn_scale bn_var1;
          conv_W1 = Initializer_scale_by_axis ops conv_W bn_scale1 1
      in case conv_B_opt of
           Some conv_B \<Rightarrow>
             let conv_B1 = Initializer_add ops
                             (Initializer_mul ops (Initializer_sub ops conv_B bn_mean) bn_scale1)
                             bn_B;
                 g1 = RemoveInitializedTensor graph (tp_name conv_W);
                 g2 = RemoveInitializedTensor g1 (tp_name conv_B);
                 g3 = AddInitializedTensor g2 conv_W1;
                 g4 = AddInitializedTensor g3 conv_B1
             in replace_and_record g4 removed_nodes conv_node bn_node
         | None \<Rightarrow>
             let bn_mean1 = Initializer_mul ops bn_mean bn_scale1;
                 bn_B1 = Initializer_sub ops bn_B bn_mean1
             in case GetNodeArg graph (tp_name bn_B) of
                  None \<Rightarrow> Continue (graph, removed_nodes)
                | Some bn_B_node_arg \<Rightarrow>
                    if length (InputArgCount conv_node) < 3 then Fault OutOfRange
                    else
                      let g1 = RemoveInitializedTensor graph (tp_name conv_W);
                          g2 = RemoveInitializedTensor g1 (tp_name bn_B);
                          g2a = UpdateNode g2 (Index conv_node)
                                  (\<lambda>n. n\<lparr>InputDefs := InputDefs n @ [bn_B_node_arg],
                                         InputArgCount := (InputArgCount n)[2 := 1]\<rparr>);
                          g3 = AddInitializedTensor g2a conv_W1;
                          g4 = AddInitializedTensor g3 bn_B1
                      in replace_and_record g4 removed_nodes conv_node bn_node)"

text \<open>Lines 46 to 104: the initializers of the two nodes and the checks on them.\<close>

definition ConvBNFusion_tensors ::
  "'a ScalarOps \<Rightarrow> 'a Graph \<Rightarrow> nat list \<Rightarrow> 'a Node \<Rightarrow> 'a Node \<Rightarrow> 'a
     \<Rightarrow> ('a Graph \<times> nat list) Step" where
  "ConvBNFusion_tensors ops graph removed_nodes conv_node bn_node epsilon =
     (let bn_inputs = InputDefs bn_node;
          conv_inputs = InputDefs conv_node;
          bn_scale_tensor_proto = GetInitializedTensor graph (bn_inputs ! 1);
          bn_B_tensor_proto = GetInitializedTensor graph (bn_inputs ! 2);
          bn_mean_tensor_proto = GetInitializedTensor graph (bn_inputs ! 3);
          bn_var_tensor_proto = GetInitializedTensor graph (bn_inputs ! 4);
          conv_W_tensor_proto = GetInitializedTensor graph (conv_inputs ! 1)
      in if \<not> IsSupportedDataType bn_scale_tensor_proto \<or>
            \<not> IsSupportedDataType bn_B_tensor_proto \<or>
            \<not> IsSupportedDataType bn_mean_tensor_proto \<or>
            \<not> IsSupportedDataType bn_var_tensor_proto \<or>
            \<not> IsSupportedDataType conv_W_tensor_proto \<or>
            length (tp_dims (the bn_scale_tensor_proto)) \<noteq> 1 \<or>
            length (tp_dims (the bn_B_tensor_proto)) \<noteq> 1 \<or>
            length (tp_dims (the bn_mean_tensor_proto)) \<noteq> 1 \<or>
            length (tp_dims (the bn_var_tensor_proto)) \<noteq> 1 \<or>
            tp_dims (the bn_scale_tensor_proto) ! 0 \<noteq> tp_dims (the bn_B_tensor_proto) ! 0 \<or>
            tp_dims (the bn_B_tensor_proto) ! 0 \<noteq> tp_dims (the bn_mean_tensor_proto) ! 0 \<or>
            tp_dims (the bn_mean_tensor_proto) ! 0 \<noteq> tp_dims (the bn_var_tensor_proto) ! 0 \<or>
            tp_data_type (the bn_scale_tensor_proto) \<noteq> tp_data_type (the bn_B_tensor_proto) \<or>
            tp_data_type (the bn_B_tensor_proto) \<noteq> tp_data_type (the bn_mean_tensor_proto) \<or>
            tp_data_type (the bn_mean_tensor_proto) \<noteq> tp_data_type (the bn_var_tensor_proto) \<or>
            tp_data_type (the conv_W_tensor_proto) \<noteq> tp_data_type (the bn_scale_tensor_proto) \<or>
            \<not> (length (tp_dims (the conv_W_tensor_proto)) > 2 \<and>
               tp_dims (the conv_W_tensor_proto) ! 0 = tp_dims (the bn_scale_tensor_proto) ! 0)
         then Continue (graph, removed_nodes)
         else if length conv_inputs = 3 then
           (case GetInitializedTensor graph (conv_inputs ! 2) of
              None \<Rightarrow> Continue (graph, removed_nodes)
            | Some conv_B_tensor_proto \<Rightarrow>
                if \<not> IsSupportedDataType (Some conv_B_tensor_proto) \<or>
                   length (tp_dims conv_B_tensor_proto) \<noteq> 1 \<or>
                   tp_dims conv_B_tensor_proto ! 0 \<noteq> tp_dims (the bn_B_tensor_proto) ! 0 \<or>
                   tp_data_type conv_B_tensor_proto \<noteq> tp_data_type (the bn_B_tensor_proto)
                then Continue (graph, removed_nodes)
                else ConvBNFusion_update ops graph removed_nodes conv_node bn_node epsilon
                       (the bn_scale_tensor_proto) (the bn_B_tensor_proto)
                       (the bn_mean_tensor_proto) (the bn_var_tensor_proto)
                       (the conv_W_tensor_proto) (Some conv_B_tensor_proto))
         else ConvBNFusion_update ops graph removed_nodes conv_node bn_node epsilon
                (the bn_scale_tensor_proto) (the bn_B_tensor_proto)
                (the bn_mean_tensor_proto) (the bn_var_tensor_proto)
                (the conv_W_tensor_proto) None)"

text \<open>
  The body of the loop of \<open>ConvBNFusion::Apply\<close> on one node. \<open>find("group")->second\<close> and
  \<open>find("epsilon")->second\<close> read past the end when the attribute is absent, and so do
  \<open>bn_inputs[1..4]\<close> and \<open>conv_inputs[1]\<close> on shorter input lists.
\<close>

definition ConvBNFusion_node ::
  "'a ScalarOps \<Rightarrow> 'a Graph \<Rightarrow> nat list \<Rightarrow> 'a Node \<Rightarrow> ('a Graph \<times> nat list) Step" where
  "ConvBNFusion_node ops graph removed_nodes node =
     (if \<not> IsSupportedOptypeVersionAndDomain node ''Conv'' 1 kOnnxDomainAlias \<or>
         length (OutputEdges node) \<noteq> 1
      then Continue (graph, removed_nodes)
      else case GetNode graph (hd (OutputEdges node)) of
        None \<Rightarrow> Fault NullDereference
      | Some next_node \<Rightarrow>
          if \<not> IsSupportedOptypeVersionAndDomain next_node ''BatchNormalization'' 7
                 kOnnxDomainAlias \<or>
             length (InputEdges next_node) \<noteq> 1 \<or>
             IsNodeOutputsInGraphOutputs graph next_node
          then Continue (graph, removed_nodes)
          else case map_of (Attributes node) ''group'' of
            None \<Rightarrow> Fault OutOfRange
          | Some group_attr \<Rightarrow>
              if attr_type group_attr = AttributeType_INT \<and> attr_i group_attr \<noteq> None \<and>
                 attr_i group_attr \<noteq> Some 1
              then Continue (graph, removed_nodes)
              else case map_of (Attributes next_node) ''epsilon'' of
                None \<Rightarrow> Fault OutOfRange
              | Some attr \<Rightarrow>
                  if attr_type attr \<noteq> AttributeType_FLOAT then Continue (graph, removed_nodes)
                  else if length (InputDefs next_node) < 5 \<or> length (InputDefs node) < 2
                  then Fault OutOfRange
                  else ConvBNFusion_tensors ops graph removed_nodes node next_node (attr_f attr))"

text \<open>The loop over \<open>graph.Nodes()\<close>, the removal of the recorded nodes and \<open>Resolve\<close>.\<close>

fun fusion_loop ::
  "('a Graph \<Rightarrow> nat list \<Rightarrow> 'a Node \<Rightarrow> ('a Graph \<times> nat list) Step) \<Rightarrow> nat list
     \<Rightarrow> 'a Graph \<times> nat list \<Rightarrow> ('a Graph \<times> nat list) Step" where
  "fusion_loop body [] st = Continue st"
| "fusion_loop body (i # rest) (graph, removed_nodes) =
     (case GetNode graph i of
        None \<Rightarrow> fusion_loop body rest (graph, removed_nodes)
      | Some node \<Rightarrow>
          (case body graph removed_nodes node of
             Continue st \<Rightarrow> fusion_loop body rest st
           | Return status st \<Rightarrow> Return status st
           | Fault f \<Rightarrow> Fault f))"

definition remove_nodes :: "nat list \<Rightarrow> 'a Graph \<Rightarrow> 'a Graph" where
  "remove_nodes removed_nodes graph = fold (\<lambda>i g. RemoveNode g i) removed_nodes graph"

text \<open>\<open>Graph::Resolve\<close> is a parameter.\<close>

definition fusion_Apply ::
  "('a Graph \<Rightarrow> nat list \<Rightarrow> 'a Node \<Rightarrow> ('a Graph \<times> nat list) Step)
     \<Rightarrow> ('a Graph \<Rightarrow> Status \<times> 'a Graph) \<Rightarrow> 'a Graph \<Rightarrow> bool
     \<Rightarrow> fault + Status \<times> 'a Graph \<times> bool" where
  "fusion_Apply body resolve graph modified =
     (case fusion_loop body (LiveNodes graph) (graph, []) of
        Fault f \<Rightarrow> Inl f
      | Return status (g1, removed_nodes) \<Rightarrow> Inr (status, g1, modified)
      | Continue (g1, removed_nodes) \<Rightarrow>
          let g2 = remove_nodes removed_nodes g1 in
          if removed_nodes \<noteq> [] then
            (case resolve g2 of
               (status, g3) \<Rightarrow>
                 if \<not> IsOK status then Inr (status, g3, True)
                 else Inr (Status_OK, g3, True))
          else Inr (Status_OK, g2, modified))"

definition ConvBNFusion_Apply ::
  "'a ScalarOps \<Rightarrow> ('a Graph \<Rightarrow> Status \<times> 'a Graph) \<Rightarrow> 'a Graph \<Rightarrow> bool
     \<Rightarrow> fault + Status \<times> 'a Graph \<times> bool" where
  "ConvBNFusion_Apply ops resolve graph modified =
     fusion_Apply (ConvBNFusion_node ops) resolve graph modified"

text \<open>The body of the loop of \<open>ConvMulFusion::Apply\<close> on one node, in the same three parts.\<close>

definition ConvMulFusion_update ::
  "'a ScalarOps \<Rightarrow> 'a Graph \<Rightarrow> nat list \<Rightarrow> 'a Node \<Rightarrow> 'a Node
     \<Rightarrow> 'a TensorProto \<Rightarrow> 'a TensorProto \<Rightarrow> 'a TensorProto option
     \<Rightarrow> ('a Graph \<times> nat list) Step" where
  "ConvMulFusion_update ops graph removed_nodes conv_node mul_node conv_W mul_B conv_B_opt =
     (let conv_inputs = InputDefs conv_node;
          conv_W1 = Initializer_scale_by_axis ops conv_W mul_B 1;
          g1 = RemoveInitializedTensor graph (conv_inputs ! 1);
          g2 = AddInitializedTensor g1 conv_W1
      in case conv_B_opt of
           Some conv_B \<Rightarrow>
             let conv_B1 = (if length (tp_dims mul_B) \<noteq> 0 then Initializer_mul ops conv_B mul_B
                            else Initializer_scale_by_axis ops conv_B mul_B 0);
                 g3 = RemoveInitializedTensor g2 (conv_inputs ! 2);
                 g4 = AddInitializedTensor g3 conv_B1
             in replace_and_record g4 removed_nodes conv_node mul_node
         | None \<Rightarrow> replace_and_record g2 removed_nodes conv_node mul_node)"

definition ConvMulFusion_tensors ::
  "'a ScalarOps \<Rightarrow> 'a Graph \<Rightarrow> nat list \<Rightarrow> 'a Node \<Rightarrow> 'a Node \<Rightarrow> ('a Graph \<times> nat list) Step" where
  "ConvMulFusion_tensors ops graph removed_nodes conv_node mul_node =
     (let conv_inputs = InputDefs conv_node;
          mul_inputs = InputDefs mul_node;
          conv_W_tensor_proto = GetInitializedTensor graph (conv_inputs ! 1);
          mul_B_tensor_proto = GetInitializedTensor graph (mul_inputs ! 1)
      in if \<not> IsSupportedDataType conv_W_tensor_proto \<or>
            \<not> IsSupportedDataType mul_B_tensor_proto \<or>
            tp_data_type (the conv_W_tensor_proto) \<noteq> tp_data_type (the mul_B_tensor_proto) \<or>
            length (tp_dims (the conv_W_tensor_proto)) < 4 \<or>
            \<not> (length (tp_dims (the mul_B_tensor_proto)) = 0 \<or>
               (int (length (tp_dims (the mul_B_tensor_proto)))
                  = int (length (tp_dims (the conv_W_tensor_proto))) - 1 \<and>
                tp_dims (the conv_W_tensor_proto) ! 0 = tp_dims (the mul_B_tensor_proto) ! 0))
         then Continue (graph, removed_nodes)
         else if length (tp_dims (the mul_B_tensor_proto)) \<noteq> 0 \<and>
                 list_ex (\<lambda>i. tp_dims (the mul_B_tensor_proto) ! i \<noteq> 1)
                   [1..<length (tp_dims (the mul_B_tensor_proto))]
         then Continue (graph, removed_nodes)
         else if length conv_inputs = 3 then
           (case GetInitializedTensor graph (conv_inputs ! 2) of
              None \<Rightarrow> Continue (graph, removed_nodes)
            | Some conv_B_tensor_proto \<Rightarrow>
                if \<not> IsSupportedDataType (Some conv_B_tensor_proto) \<or>
                   tp_data_type conv_B_tensor_proto \<noteq> tp_data_type (the mul_B_tensor_proto) \<or>
                   length (tp_dims conv_B_tensor_proto) \<noteq> 1 \<or>
                   (length (tp_dims (the mul_B_tensor_proto)) \<noteq> 0 \<and>
                    tp_dims conv_B_tensor_proto ! 0 \<noteq> tp_dims (the mul_B_tensor_proto) ! 0)
                then Continue (graph, removed_nodes)
                else ConvMulFusion_update ops graph removed_nodes conv_node mul_node
                       (the conv_W_tensor_proto) (the mul_B_tensor_proto)
                       (Some conv_B_tensor_proto))
         else ConvMulFusion_update ops graph removed_nodes conv_node mul_node
                (the conv_W_tensor_proto) (the mul_B_tensor_proto) None)"

definition ConvMulFusion_node ::
  "'a ScalarOps \<Rightarrow> 'a Graph \<Rightarrow> nat list \<Rightarrow> 'a Node \<Rightarrow> ('a Graph \<times> nat list) Step" where
  "ConvMulFusion_node ops graph removed_nodes node =
     (if \<not> IsSupportedOptypeVersionAndDomain node ''Conv'' 1 kOnnxDomainAlias \<or>
         length (OutputEdges node) \<noteq> 1
      then Continue (graph, removed_nodes)
      else case GetNode graph (hd (OutputEdges node)) of
        None \<Rightarrow> Fault NullDereference
      | Some next_node \<Rightarrow>
          if \<not> IsSupportedOptypeVersionAndDomain next_node ''Mul'' 7 kOnnxDomainAlias \<or>
             length (InputEdges next_node) \<noteq> 1 \<or>
             IsNodeOutputsInGraphOutputs graph next_node
          then Continue (graph, removed_nodes)
          else if length (InputDefs next_node) < 2 \<or> length (InputDefs node) < 2
          then Fault OutOfRange
          else ConvMulFusion_tensors ops graph removed_nodes node next_node)"

definition ConvMulFusion_Apply ::
  "'a ScalarOps \<Rightarrow> ('a Graph \<Rightarrow> Status \<times> 'a Graph) \<Rightarrow> 'a Graph \<Rightarrow> bool
     \<Rightarrow> fault + Status \<times> 'a Graph \<times> bool" where
  "ConvMulFusion_Apply ops resolve graph modified =
     fusion_Apply (ConvMulFusion_node ops) resolve graph modified"

text \<open>
  The Conv nodes that the claim about skipping is about: the number of output edges is not
  one, or the single successor has an output among the graph outputs.
\<close>

definition not_fusable :: "'a Graph \<Rightarrow> 'a Node \<Rightarrow> bool" where
  "not_fusable graph node =
     (length (OutputEdges node) \<noteq> 1 \<or>
      (case GetNode graph (hd (OutputEdges node)) of
         None \<Rightarrow> False
       | Some next_node \<Rightarrow> IsNodeOutputsInGraphOutputs graph next_node))"

text \<open>
  A concrete graph \<open>Conv \<rightarrow> BatchNormalization \<rightarrow> Relu\<close> over the reals, with two output
  channels and no Conv bias; its graph outputs are a parameter.
\<close>

definition real_ops :: "real ScalarOps" where
  "real_ops = \<lparr>op_add = (+), op_sub = (-), op_mul = (*), op_div = (/), op_sqrt = sqrt\<rparr>"

definition conv_ex :: "real Node" where
  "conv_ex =
     \<lparr>Index = 0, OpType = ''Conv'', Domain = [], OpDeprecated = False, OpSinceVersion = 1,
      InputDefs = [''X'', ''W''], OutputDefs = [''C''], InputArgCount = [1, 1, 0],
      Attributes = [(''group'', \<lparr>attr_type = AttributeType_INT, attr_i = Some 1, attr_f = 0,
                                 attr_ints = []\<rparr>)],
      InputEdges = [], OutputEdges = [1]\<rparr>"

definition bn_ex :: "real Node" where
  "bn_ex =
     \<lparr>Index = 1, OpType = ''BatchNormalization'', Domain = [], OpDeprecated = False,
      OpSinceVersion = 7,
      InputDefs = [''C'', ''scale'', ''B'', ''mean'', ''var''], OutputDefs = [''Y''],
      InputArgCount = [1, 1, 1, 1, 1],
      Attributes = [(''epsilon'', \<lparr>attr_type = AttributeType_FLOAT, attr_i = None, attr_f = 1,
                                   attr_ints = []\<rparr>)],
      InputEdges = [0], OutputEdges = [2]\<rparr>"

definition relu_ex :: "real Node" where
  "relu_ex =
     \<lparr>Index = 2, OpType = ''Relu'', Domain = [], OpDeprecated = False, OpSinceVersion = 6,
      InputDefs = [''Y''], OutputDefs = [''Z''], InputArgCount = [1], Attributes = [],
      InputEdges = [1], OutputEdges = []\<rparr>"

definition float_tensor_proto :: "string \<Rightarrow> int list \<Rightarrow> real list \<Rightarrow> real TensorProto" where
  "float_tensor_proto n ds xs =
     \<lparr>tp_name = n, tp_dims = ds, tp_data_type = TensorProto_DataType_FLOAT, tp_data = xs\<rparr>"

definition conv_bn_relu :: "string list \<Rightarrow> real Graph" where
  "conv_bn_relu outputs =
     \<lparr>Nodes = [Some conv_ex, Some bn_ex, Some relu_ex],
      Initializers = [float_tensor_proto ''W'' [2, 1, 1, 1] [1, 10],
                      float_tensor_proto ''scale'' [2] [6, 4],
                      float_tensor_proto ''B'' [2] [1, 2],
                      float_tensor_proto ''mean'' [2] [5, 7],
                      float_tensor_proto ''var'' [2] [3, 3]],
      NodeArgs = [''X'', ''W'', ''C'', ''scale'', ''B'', ''mean'', ''var'', ''Y'', ''Z''],
      GraphOutputs = outputs\<rparr>"





section \<open>Theorems\<close>

lemma Code_MakeStatus: "Code (MakeStatus c m) = c"
  by (simp add: MakeStatus_def)

lemma ErrorMessage_MakeStatus: "ErrorMessage (MakeStatus c m) = m"
  by (simp add: MakeStatus_def)

subsection \<open>EyeLike\<close>

lemma diagonal_assign_Nil: "diagonal_size k rows cols = 0 \<Longrightarrow> diagonal_assign k rows cols v m = m"
  by (simp add: diagonal_assign_def)

text \<open>
  C10. For a 2-D input and a diagonal offset \<open>k\<close> with \<open>k \<ge> 0\<close> and \<open>k \<ge> cols\<close>, or
  \<open>k < 0\<close> and \<open>|k| \<ge> rows\<close>, \<open>EyeLike::ComputeImpl\<close> returns OK and the all-zero tensor
  of the input's shape; an input whose rank is not 2 yields INVALID\_ARGUMENT.
\<close>

theorem EyeLike_out_of_range_diagonal:
  fixes k :: int and rows cols :: int
  shows "(is_int64 k \<and> 0 \<le> rows \<and> rows \<le> INT64_MAX \<and> 0 \<le> cols \<and> cols \<le> INT64_MAX \<and>
          ((k \<ge> 0 \<and> k \<ge> cols) \<or> (k < 0 \<and> \<bar>k\<bar> \<ge> rows)) \<longrightarrow>
            (EyeLike_ComputeImpl k [rows, cols] :: Status \<times> ('a::{zero,one}) Tensor option) =
              (Status_OK, Some \<lparr>Shape = [rows, cols], Data = replicate (nat (rows * cols)) 0\<rparr>))
       \<and> (length dims \<noteq> 2 \<longrightarrow>
            Code (fst (EyeLike_ComputeImpl k dims :: Status \<times> ('a::{zero,one}) Tensor option))
              = INVALID_ARGUMENT)"
proof (intro conjI impI)
  assume h: "is_int64 k \<and> 0 \<le> rows \<and> rows \<le> INT64_MAX \<and> 0 \<le> cols \<and> cols \<le> INT64_MAX \<and>
          ((k \<ge> 0 \<and> k \<ge> cols) \<or> (k < 0 \<and> \<bar>k\<bar> \<ge> rows))"
  show "(EyeLike_ComputeImpl k [rows, cols] :: Status \<times> 'a Tensor option) =
      (Status_OK, Some \<lparr>Shape = [rows, cols], Data = replicate (nat (rows * cols)) 0\<rparr>)"
  proof (cases "k = INT64_MIN")
    case True
    with h have "diagonal_size k rows cols = 0"
      by (simp add: diagonal_size_def INT64_MIN_def INT64_MAX_def)
    then show ?thesis
      by (simp add: EyeLike_ComputeImpl_def Let_def setZero_def diagonal_assign_Nil)
  next
    case False
    with h show ?thesis
      by (auto simp: EyeLike_ComputeImpl_def Let_def setZero_def std_abs_def)
  qed
next
  assume "length dims \<noteq> 2"
  then show "Code (fst (EyeLike_ComputeImpl k dims :: Status \<times> 'a Tensor option)) = INVALID_ARGUMENT"
    by (simp add: EyeLike_ComputeImpl_def MakeStatus_def)
qed

theorem EyeLike_out_of_range_diagonal_witness:
  "(EyeLike_ComputeImpl 5 [2, 3] :: Status \<times> int Tensor option) =
      (Status_OK, Some \<lparr>Shape = [2, 3], Data = [0, 0, 0, 0, 0, 0]\<rparr>)
   \<and> Code (fst (EyeLike_ComputeImpl 5 [2, 3, 4] :: Status \<times> int Tensor option)) = INVALID_ARGUMENT"
  using EyeLike_out_of_range_diagonal [where k = 5 and rows = 2 and cols = 3
      and dims = "[2, 3, 4]" and 'a = int]
  by (simp add: is_int64_def INT64_MAX_def INT64_MIN_def numeral_eq_Suc)

subsection \<open>Load on a loaded session\<close>

text \<open>
  C7. On a session whose model is loaded, every \<open>Load\<close> overload returns MODEL\_LOADED and
  leaves the session, its model included, as it was.
\<close>

theorem Load_twice_rejected:
  "is_model_loaded s \<Longrightarrow>
     Load_model_uri ml s = (already_loaded, s) \<and>
     Load_model_proto ml s = (already_loaded, s) \<and>
     Load_p_model_proto ml s = (already_loaded, s) \<and>
     Load_model_istream parsed s = (already_loaded, s) \<and>
     Code already_loaded = MODEL_LOADED"
  by (simp add: Load_model_uri_def Load_model_proto_def Load_p_model_proto_def
      Load_model_istream_def already_loaded_def MakeStatus_def)

text \<open>A \<open>Load\<close> that returns OK leaves the session marked as loaded.\<close>

lemma Load_OK_sets_loaded:
  "\<not> is_model_loaded s \<Longrightarrow> Load_model_uri ml s = (st, s') \<Longrightarrow> IsOK st \<Longrightarrow> is_model_loaded s'"
  "\<not> is_model_loaded s \<Longrightarrow> Load_model_proto ml s = (st, s') \<Longrightarrow> IsOK st \<Longrightarrow> is_model_loaded s'"
  "\<not> is_model_loaded s \<Longrightarrow> Load_p_model_proto ml s = (st, s') \<Longrightarrow> IsOK st \<Longrightarrow> is_model_loaded s'"
  "\<not> is_model_loaded s \<Longrightarrow> Load_model_istream parsed s = (st, s') \<Longrightarrow> IsOK st \<Longrightarrow>
     is_model_loaded s'"
  by (auto simp: Load_model_uri_def Load_model_proto_def Load_p_model_proto_def
      Load_model_istream_def load_and_process_def EndTimeAndRecordEvent_def IsOK_def
      MakeStatus_def Status_OK_def split: ModelLoad.splits option.splits prod.splits if_splits)

lemma loaded_session_loaded: "is_model_loaded loaded_session"
  by (simp add: loaded_session_def Load_model_uri_def new_session_def load_and_process_def
      DoPostLoadProcessing_def SaveModelMetadata_def Let_def IsOK_def Status_OK_def
      EndTimeAndRecordEvent_def)

theorem Load_twice_rejected_witness:
  "is_model_loaded loaded_session \<and>
   Load_model_uri (LoadReturns Status_OK abs_model) loaded_session = (already_loaded, loaded_session) \<and>
   Load_model_proto (LoadReturns Status_OK abs_model) loaded_session = (already_loaded, loaded_session) \<and>
   Load_p_model_proto (LoadReturns Status_OK abs_model) loaded_session = (already_loaded, loaded_session) \<and>
   Load_model_istream (Some (LoadReturns Status_OK abs_model)) loaded_session
     = (already_loaded, loaded_session) \<and>
   Code already_loaded = MODEL_LOADED"
  using Load_twice_rejected [OF loaded_session_loaded, of "LoadReturns Status_OK abs_model"
      "Some (LoadReturns Status_OK abs_model)"] loaded_session_loaded
  by simp

subsection \<open>Slice elimination\<close>

lemma slice_bounds_trivial_iff:
  "slice_bounds_trivial starts ends axes =
     (\<forall>i < length axes. starts ! i = 0 \<and> (ends ! i \<le> 0 \<or> ends ! i \<ge> INT64_MAX))"
proof -
  have "\<And>i. (\<not> (starts ! i > 0 \<or> starts ! i < 0 \<or> (ends ! i > 0 \<and> ends ! i < INT64_MAX))) =
             (starts ! i = 0 \<and> (ends ! i \<le> 0 \<or> ends ! i \<ge> INT64_MAX))"
    by arith
  then show ?thesis
    by (simp add: slice_bounds_trivial_def list_all_iff Ball_def)
qed

text \<open>
  What \<open>EliminateSlice::SatisfyCondition\<close> accepts: every \<open>ends[i]\<close> that is not strictly
  between 0 and \<open>INT64_MAX\<close>, so also 0 and every negative value.
\<close>

lemma EliminateSlice_SatisfyCondition_iff:
  "EliminateSlice_SatisfyCondition single node =
     (single node \<and>
      (\<exists>starts ends.
         GetRepeatedNodeAttributeValues node ''starts'' = Some starts \<and>
         GetRepeatedNodeAttributeValues node ''ends'' = Some ends \<and>
         length starts = length ends \<and>
         (case GetRepeatedNodeAttributeValues node ''axes'' of
            None \<Rightarrow> True | Some axes \<Rightarrow> length axes = length starts) \<and>
         (\<forall>i < length starts. starts ! i = 0 \<and> (ends ! i \<le> 0 \<or> ends ! i \<ge> INT64_MAX))))"
  by (auto simp: EliminateSlice_SatisfyCondition_def slice_bounds_trivial_iff
      split: option.splits)

text \<open>
  C2. The claim: \<open>SatisfyCondition\<close> holds exactly when the node is single-input
  single-output, \<open>starts\<close> and \<open>ends\<close> are present with equal lengths, every \<open>starts[i]\<close>
  is 0 and every \<open>ends[i]\<close> is \<open>INT64_MAX\<close> or the negative "to end" value. The code accepts
  the Slice with \<open>starts = [0]\<close>, \<open>ends = [0]\<close> (an empty slice), and the one with
  \<open>ends = [-2]\<close> (which drops the last two elements).
\<close>

theorem EliminateSlice_accepts_ends_zero:
  "EliminateSlice_SatisfyCondition one_edge_in_out (slice_node [0] [0]) = True \<and>
   EliminateSlice_SatisfyCondition one_edge_in_out (slice_node [0] [-2]) = True"
  by (simp add: EliminateSlice_SatisfyCondition_def GetRepeatedNodeAttributeValues_def
      slice_node_def one_edge_in_out_def ints_attr_def slice_bounds_trivial_def INT64_MAX_def)

theorem EliminateSlice_accepts_ends_zero_witness:
  "EliminateSlice_SatisfyCondition one_edge_in_out (slice_node [0] [0])"
  using EliminateSlice_accepts_ends_zero by simp

subsection \<open>ReverseSequence\<close>

text \<open>
  The vectors of the repository's test \<open>CpuReverseSequenceTest.BatchSequenceX4_int\<close>: the
  positions after \<open>seq_lengths[b]\<close> are all zero there, so the test cannot tell a copy of
  the rest from a reversal of it.
\<close>

lemma ReverseSequence_BatchSequenceX4_int:
  "ReverseSequence_ComputeImpl 1 0
     \<lparr>Shape = [4, 5, 2],
      Data = [111, 112, 0, 0, 0, 0, 0, 0, 0, 0,
              211, 212, 221, 222, 231, 232, 0, 0, 0, 0,
              311, 312, 321, 322, 331, 332, 341, 342, 351, 352,
              411, 412, 421, 422, 431, 432, 441, 442, 0, 0 :: int]\<rparr>
     \<lparr>Shape = [4], Data = [1, 3, 5, 4]\<rparr> (replicate 40 0)
   = Inr (Status_OK,
       \<lparr>Shape = [4, 5, 2],
        Data = [111, 112, 0, 0, 0, 0, 0, 0, 0, 0,
                231, 232, 221, 222, 211, 212, 0, 0, 0, 0,
                351, 352, 341, 342, 331, 332, 321, 322, 311, 312,
                441, 442, 431, 432, 421, 422, 411, 412, 0, 0]\<rparr>)"
  by code_simp

lemma reverse_sequence_spec_BatchSequenceX4_int:
  "reverse_sequence_spec 4 5 2 [1, 3, 5, 4]
     [111, 112, 0, 0, 0, 0, 0, 0, 0, 0,
      211, 212, 221, 222, 231, 232, 0, 0, 0, 0,
      311, 312, 321, 322, 331, 332, 341, 342, 351, 352,
      411, 412, 421, 422, 431, 432, 441, 442, 0, 0 :: int]
   = [111, 112, 0, 0, 0, 0, 0, 0, 0, 0,
      231, 232, 221, 222, 211, 212, 0, 0, 0, 0,
      351, 352, 341, 342, 331, 332, 321, 322, 311, 312,
      441, 442, 431, 432, 421, 422, 411, 412, 0, 0]"
  by code_simp

text \<open>
  C1. The claim: the first \<open>seq_lengths[b]\<close> positions along the sequence axis are
  reversed and every later position is left as in the input. With the batch axis before
  the sequence axis the code assigns the rest through \<open>.colwise().reverse()\<close> as well: on
  the input \<open>[1, 2, 3]\<close> of shape \<open>[1, 3, 1]\<close> with \<open>seq_lengths = [1]\<close> it returns
  \<open>[1, 3, 2]\<close>, where the specification gives \<open>[1, 2, 3]\<close>. With the sequence axis first
  (shape \<open>[3, 1, 1]\<close>) the same data comes back unchanged.
\<close>

theorem ReverseSequence_reverses_rest:
  "ReverseSequence_ComputeImpl 1 0 \<lparr>Shape = [1, 3, 1], Data = [1, 2, 3 :: int]\<rparr>
      \<lparr>Shape = [1], Data = [1]\<rparr> [0, 0, 0]
     = Inr (Status_OK, \<lparr>Shape = [1, 3, 1], Data = [1, 3, 2]\<rparr>)
   \<and> reverse_sequence_spec 1 3 1 [1] [1, 2, 3 :: int] = [1, 2, 3]
   \<and> ReverseSequence_ComputeImpl 0 1 \<lparr>Shape = [3, 1, 1], Data = [1, 2, 3 :: int]\<rparr>
      \<lparr>Shape = [1], Data = [1]\<rparr> [0, 0, 0]
     = Inr (Status_OK, \<lparr>Shape = [3, 1, 1], Data = [1, 2, 3]\<rparr>)"
  by code_simp

subsection \<open>The fixed-point loop of the rewriter\<close>

lemma ApplyAll_from_passes:
  "ApplyAll_from n ts resolve g passes = (st, g', passes') \<Longrightarrow>
     \<exists>more. passes' = passes @ more \<and> length more \<le> n \<and> False \<notin> set (butlast more)"
proof (induction n arbitrary: g passes)
  case 0
  then show ?case by simp
next
  case (Suc n)
  obtain st1 g1 changed where p: "apply_pipeline ts g False = (st1, g1, changed)"
    by (cases "apply_pipeline ts g False") auto
  show ?case
  proof (cases "IsOK st1 \<and> changed \<and> IsOK (fst (resolve g1))")
    case True
    obtain rst g2 where r: "resolve g1 = (rst, g2)" by (cases "resolve g1") auto
    with True p Suc.prems have "ApplyAll_from n ts resolve g2 (passes @ [True]) = (st, g', passes')"
      by simp
    from Suc.IH [OF this] obtain more where
      m: "passes' = (passes @ [True]) @ more" "length more \<le> n" "False \<notin> set (butlast more)"
      by blast
    have "passes' = passes @ (True # more)" using m(1) by simp
    moreover have "length (True # more) \<le> Suc n" using m(2) by simp
    moreover have "False \<notin> set (butlast (True # more))" using m(3) by simp
    ultimately show ?thesis by blast
  next
    case False
    obtain rst g2 where r: "resolve g1 = (rst, g2)" by (cases "resolve g1") auto
    from False p r Suc.prems have "\<exists>b. passes' = passes @ [b]"
      by (auto split: if_splits)
    then obtain b where "passes' = passes @ [b]" by blast
    then have "passes' = passes @ [b] \<and> length [b] \<le> Suc n \<and> False \<notin> set (butlast [b])"
      by simp
    then show ?thesis by blast
  qed
qed

text \<open>
  C5. With a step cap \<open>k\<close>, \<open>ApplyAll\<close> returns after at most \<open>k\<close> passes over the
  pipeline, and a pass that reports no modification is the last one: every pass but the
  last reported a modification. \<open>ApplyAll\<close> is a total function, so it always returns.
\<close>

theorem ApplyAll_at_most_k_passes:
  "ApplyAll k ts resolve g = (st, g', passes) \<Longrightarrow>
     length passes \<le> k \<and> False \<notin> set (butlast passes)"
  using ApplyAll_from_passes [of k ts resolve g "[]" st g' passes]
  by (auto simp: ApplyAll_def)

theorem ApplyAll_at_most_k_passes_witness:
  "ApplyAll 5 [count_down] (\<lambda>g. (Status_OK, g)) 2 = (Status_OK, 0, [True, True, False]) \<and>
   length [True, True, False] \<le> (5::nat) \<and> False \<notin> set (butlast [True, True, False])"
proof -
  have e: "ApplyAll 5 [count_down] (\<lambda>g. (Status_OK, g)) 2 = (Status_OK, 0, [True, True, False])"
    by (simp add: ApplyAll_def count_down_def IsOK_def Status_OK_def numeral_eq_Suc)
  from ApplyAll_at_most_k_passes [OF e] e show ?thesis by simp
qed

subsection \<open>Validation in Run\<close>

lemma run_calls_not_OK: "\<not> IsOK retval \<Longrightarrow> run_calls cs (retval, calls) = (retval, calls)"
  by (induction cs) auto

lemma run_end_calls_not_OK: "\<not> IsOK retval \<Longrightarrow> run_end_calls cs (retval, calls) = (retval, calls)"
  by (induction cs) auto

lemma Run_validation_failed:
  assumes "is_inited s"
    and "(if IsOK (ValidateInputNames s feeds)
          then (case ValidateInputTypes s feeds of
                  Inl f \<Rightarrow> False
                | Inr t \<Rightarrow> st = (if IsOK t then ValidateOutputs s output_names p_fetches else t))
          else st = ValidateInputNames s feeds)"
    and "\<not> IsOK st"
  shows "Run env s feeds output_names p_fetches = Inr (st, EndTimeAndRecordEvent ''model_run'' s, [])"
  using assms
  by (auto simp: Run_def ValidateInputs_def Let_def Status_OK_def IsOK_def
      run_calls_not_OK run_end_calls_not_OK EndTimeAndRecordEvent_def
      split: sum.splits if_splits)

lemma missing_fold_mono:
  "sublist n acc \<Longrightarrow>
   sublist n (fold (\<lambda>required_input acc.
             if map_of feeds required_input = None
             then (if acc \<noteq> [] then acc @ '','' else acc) @ required_input
             else acc) required acc)"
proof (induction required arbitrary: acc)
  case Nil
  then show ?case by simp
next
  case (Cons r required)
  have "sublist n ((if acc \<noteq> [] then acc @ '','' else acc) @ r)"
    using Cons.prems by (auto intro: sublist_appendI sublist_order.order_trans)
  with Cons show ?case by auto
qed

lemma missing_fold_names:
  "n \<in> set required \<Longrightarrow> map_of feeds n = None \<Longrightarrow>
   sublist n (fold (\<lambda>required_input acc.
             if map_of feeds required_input = None
             then (if acc \<noteq> [] then acc @ '','' else acc) @ required_input
             else acc) required acc)"
proof (induction required arbitrary: acc)
  case Nil
  then show ?case by simp
next
  case (Cons r required)
  show ?case
  proof (cases "n = r")
    case True
    have "sublist n ((if acc \<noteq> [] then acc @ '','' else acc) @ n)"
      by (metis sublist_appendI append_Nil2)
    with True Cons.prems show ?thesis
      by (simp add: missing_fold_mono)
  next
    case False
    with Cons show ?thesis by auto
  qed
qed

lemma missing_fold_empty:
  "(fold (\<lambda>required_input acc.
             if map_of feeds required_input = None
             then (if acc \<noteq> [] then acc @ '','' else acc) @ required_input
             else acc) required acc = [])
   = (acc = [] \<and> (\<forall>n \<in> set required. map_of feeds n = None \<longrightarrow> n = []))"
  by (induction required arbitrary: acc) auto

lemma missing_required_inputs_names:
  "n \<in> set (missing_names s feeds) \<Longrightarrow>
     sublist n (missing_required_inputs (required_model_input_names s) feeds)"
  by (simp add: missing_names_def missing_required_inputs_def missing_fold_names)

lemma missing_required_inputs_empty:
  "(missing_required_inputs required feeds = [])
     = (\<forall>n \<in> set required. map_of feeds n = None \<longrightarrow> n = [])"
  by (simp add: missing_required_inputs_def missing_fold_empty)

lemma invalid_fold_mono:
  "sublist n (snd st) \<Longrightarrow>
   sublist n (snd (fold (\<lambda>x (valid, invalid_names).
             if x \<notin> set names then (False, invalid_names @ '' '' @ x)
             else (valid, invalid_names)) xs st))"
proof (induction xs arbitrary: st)
  case Nil
  then show ?case by simp
next
  case (Cons x xs)
  obtain v i where st: "st = (v, i)" by (cases st)
  have "sublist n (i @ '' '' @ x)"
    using Cons.prems st by (auto intro: sublist_appendI sublist_order.order_trans)
  with Cons st show ?case by auto
qed

lemma invalid_fold_names:
  "n \<in> set xs \<Longrightarrow> n \<notin> set names \<Longrightarrow>
   sublist n (snd (fold (\<lambda>x (valid, invalid_names).
             if x \<notin> set names then (False, invalid_names @ '' '' @ x)
             else (valid, invalid_names)) xs st))"
proof (induction xs arbitrary: st)
  case Nil
  then show ?case by simp
next
  case (Cons x xs)
  obtain v i where st: "st = (v, i)" by (cases st)
  show ?case
  proof (cases "n = x")
    case True
    have "sublist n ((i @ '' '') @ n @ [])"
      by (rule sublist_appendI)
    then have "sublist n (snd (False, i @ '' '' @ n))" by simp
    from invalid_fold_mono [OF this] True Cons.prems st show ?thesis
      by simp
  next
    case False
    with Cons st show ?thesis by auto
  qed
qed

lemma invalid_fold_valid:
  "fst (fold (\<lambda>x (valid, invalid_names).
             if x \<notin> set names then (False, invalid_names @ '' '' @ x)
             else (valid, invalid_names)) xs st)
   = (fst st \<and> set xs \<subseteq> set names)"
proof (induction xs arbitrary: st)
  case Nil
  then show ?case by simp
next
  case (Cons x xs)
  obtain v i where st: "st = (v, i)" by (cases st)
  with Cons show ?case by auto
qed

lemma invalid_feed_names_as_names:
  "invalid_feed_names names feeds =
     fold (\<lambda>x (valid, invalid_names).
             if x \<notin> set names then (False, invalid_names @ '' '' @ x)
             else (valid, invalid_names)) (map fst feeds) (True, [])"
  by (simp add: invalid_feed_names_def fold_map comp_def)

lemma invalid_feed_names_valid:
  "fst (invalid_feed_names names feeds) = (fst ` set feeds \<subseteq> set names)"
  by (simp add: invalid_feed_names_as_names invalid_fold_valid)

lemma invalid_feed_names_names:
  "n \<in> set (unknown_names s feeds) \<Longrightarrow>
     sublist n (snd (invalid_feed_names (model_input_names s) feeds))"
  by (simp add: unknown_names_def invalid_feed_names_as_names invalid_fold_names)

lemma invalid_output_names_valid:
  "fst (invalid_output_names names output_names) = (set output_names \<subseteq> set names)"
  by (simp add: invalid_output_names_def invalid_fold_valid)

lemma sublist_in_message: "sublist n m \<Longrightarrow> sublist n (pre @ m @ post)"
  by (meson sublist_append sublist_order.dual_order.refl sublist_order.order_trans sublist_appendI)

lemma ValidateInputNames_missing:
  assumes "\<exists>n \<in> set (required_model_input_names s). n \<noteq> [] \<and> map_of feeds n = None"
  shows "ValidateInputNames s feeds =
           MakeStatus INVALID_ARGUMENT
             (''Missing required inputs: '' @
              missing_required_inputs (required_model_input_names s) feeds)"
proof -
  have "missing_required_inputs (required_model_input_names s) feeds \<noteq> []"
    using assms by (auto simp: missing_required_inputs_empty)
  then show ?thesis by (simp add: ValidateInputNames_def Let_def)
qed

lemma ValidateInputNames_unknown:
  assumes "\<not> (\<exists>n \<in> set (required_model_input_names s). n \<noteq> [] \<and> map_of feeds n = None)"
    and "\<exists>n \<in> fst ` set feeds. n \<notin> set (model_input_names s)"
  shows "ValidateInputNames s feeds =
           MakeStatus INVALID_ARGUMENT
             (''Invalid Feed Input Names:'' @ snd (invalid_feed_names (model_input_names s) feeds) @
              ''. Valid input names are: '' @ join_names (model_input_names s))"
proof -
  have m: "missing_required_inputs (required_model_input_names s) feeds = []"
    using assms(1) by (auto simp: missing_required_inputs_empty)
  have "\<not> fst (invalid_feed_names (model_input_names s) feeds)"
    using assms(2) by (auto simp: invalid_feed_names_valid)
  with m show ?thesis
    by (cases "invalid_feed_names (model_input_names s) feeds")
       (simp add: ValidateInputNames_def Let_def)
qed

text \<open>
  The claim C6 has the status name the offending inputs. \<open>ValidateInputNames\<close> returns at
  the first check that fails: when a required input is missing, the fed names that the
  model does not have are not in the message.
\<close>

lemma inited_session_names:
  "is_inited inited_session"
  "required_model_input_names inited_session = [''X'']"
  "model_input_names inited_session = [''X'', ''W'']"
  "model_output_names inited_session = [''Y'']"
  "input_def_list inited_session =
     [\<lparr>Name = ''X'', DeclaredType = TensorOf (Primitive ''float'')\<rparr>,
      \<lparr>Name = ''W'', DeclaredType = TensorOf (Primitive ''float'')\<rparr>]"
  by (simp_all add: inited_session_def loaded_session_def Load_model_uri_def new_session_def
      load_and_process_def DoPostLoadProcessing_def SaveModelMetadata_def Let_def IsOK_def
      Status_OK_def EndTimeAndRecordEvent_def abs_model_def set_insert_def)

theorem Run_names_only_missing_inputs:
  "Run cpu_env inited_session [(''Z'', float_tensor)] [''Y''] (Some [])
     = Inr (MakeStatus INVALID_ARGUMENT ''Missing required inputs: X'',
            EndTimeAndRecordEvent ''model_run'' inited_session, [])
   \<and> missing_names inited_session [(''Z'', float_tensor)] = [''X'']
   \<and> unknown_names inited_session [(''Z'', float_tensor)] = [''Z'']
   \<and> \<not> names_offending_inputs inited_session [(''Z'', float_tensor)]
         (MakeStatus INVALID_ARGUMENT ''Missing required inputs: X'')"
proof -
  have v: "ValidateInputNames inited_session [(''Z'', float_tensor)]
             = MakeStatus INVALID_ARGUMENT ''Missing required inputs: X''"
    by (simp add: ValidateInputNames_def missing_required_inputs_def inited_session_names)
  have "Run cpu_env inited_session [(''Z'', float_tensor)] [''Y''] (Some [])
     = Inr (MakeStatus INVALID_ARGUMENT ''Missing required inputs: X'',
            EndTimeAndRecordEvent ''model_run'' inited_session, [])"
    by (rule Run_validation_failed) (simp_all add: v inited_session_names MakeStatus_def IsOK_def)
  moreover have "\<not> sublist ''Z'' ''Missing required inputs: X''"
    by code_simp
  ultimately show ?thesis
    by (simp add: names_offending_inputs_def missing_names_def unknown_names_def
        inited_session_names MakeStatus_def)
qed

text \<open>
  \<open>ValidateInputNames\<close> takes "the string of missing names is empty" for "nothing is
  missing": a required input whose name is the empty string goes unnoticed when it is not
  fed, and \<open>Run\<close> goes on to the executor.
\<close>

lemma Run_missing_unnamed_input_executes:
  "Run cpu_env unnamed_input_session [] [''Y''] (Some [])
     = Inr (Status_OK, EndTimeAndRecordEvent ''model_run'' unnamed_input_session,
            [CallOnRunStart 0, CallCopyInputsAcrossDevices, CallMatchOutputsWithProviders,
             CallExecute, CallCopyOutputsAcrossDevices, CallOnRunEnd 0])"
  by (simp add: Run_def unnamed_input_session_def new_session_def cpu_env_def ValidateInputs_def
      ValidateInputNames_def ValidateInputTypes_def ValidateOutputs_def
      missing_required_inputs_def invalid_feed_names_def invalid_output_names_def Let_def
      IsOK_def Status_OK_def EndTimeAndRecordEvent_def)

text \<open>
  C6 (amended). On an initialized session, when the feeds omit a required input of
  non-empty name or contain a name that the model does not have, \<open>Run\<close> returns
  INVALID\_ARGUMENT and has called no provider and no executor. The message names every
  missing required input when one of non-empty name is missing, and otherwise every fed
  name that is not a model input.
\<close>

theorem Run_rejects_invalid_feed_names:
  assumes "is_inited s"
    and "(\<exists>n \<in> set (required_model_input_names s). n \<noteq> [] \<and> map_of feeds n = None) \<or>
         (\<exists>n \<in> fst ` set feeds. n \<notin> set (model_input_names s))"
  shows "\<exists>st. Run env s feeds output_names p_fetches
                = Inr (st, EndTimeAndRecordEvent ''model_run'' s, []) \<and>
              Code st = INVALID_ARGUMENT \<and>
              (if \<exists>n \<in> set (required_model_input_names s). n \<noteq> [] \<and> map_of feeds n = None
               then \<forall>n \<in> set (missing_names s feeds). sublist n (ErrorMessage st)
               else \<forall>n \<in> set (unknown_names s feeds). sublist n (ErrorMessage st))"
proof (cases "\<exists>n \<in> set (required_model_input_names s). n \<noteq> [] \<and> map_of feeds n = None")
  case True
  let ?st = "MakeStatus INVALID_ARGUMENT
             (''Missing required inputs: '' @
              missing_required_inputs (required_model_input_names s) feeds)"
  have v: "ValidateInputNames s feeds = ?st"
    using True by (rule ValidateInputNames_missing)
  have "Run env s feeds output_names p_fetches = Inr (?st, EndTimeAndRecordEvent ''model_run'' s, [])"
    by (rule Run_validation_failed) (simp_all add: v assms(1) MakeStatus_def IsOK_def)
  moreover have "\<forall>n \<in> set (missing_names s feeds). sublist n (ErrorMessage ?st)"
  proof
    fix n
    assume n: "n \<in> set (missing_names s feeds)"
    have "sublist n (''Missing required inputs: '' @
            missing_required_inputs (required_model_input_names s) feeds @ [])"
      by (rule sublist_in_message [OF missing_required_inputs_names [OF n]])
    then show "sublist n (ErrorMessage ?st)"
      by (simp only: ErrorMessage_MakeStatus append_Nil2)
  qed
  moreover have "Code ?st = INVALID_ARGUMENT"
    by (simp only: Code_MakeStatus)
  ultimately show ?thesis using True by auto
next
  case False
  let ?st = "MakeStatus INVALID_ARGUMENT
             (''Invalid Feed Input Names:'' @ snd (invalid_feed_names (model_input_names s) feeds) @
              ''. Valid input names are: '' @ join_names (model_input_names s))"
  have v: "ValidateInputNames s feeds = ?st"
    using False assms(2) by (intro ValidateInputNames_unknown) auto
  have "Run env s feeds output_names p_fetches = Inr (?st, EndTimeAndRecordEvent ''model_run'' s, [])"
    by (rule Run_validation_failed) (simp_all add: v assms(1) MakeStatus_def IsOK_def)
  moreover have "\<forall>n \<in> set (unknown_names s feeds). sublist n (ErrorMessage ?st)"
  proof
    fix n
    assume n: "n \<in> set (unknown_names s feeds)"
    have "sublist n (''Invalid Feed Input Names:'' @
            snd (invalid_feed_names (model_input_names s) feeds) @
            ''. Valid input names are: '' @ join_names (model_input_names s))"
      by (rule sublist_in_message [OF invalid_feed_names_names [OF n]])
    then show "sublist n (ErrorMessage ?st)"
      by (simp only: ErrorMessage_MakeStatus)
  qed
  moreover have "Code ?st = INVALID_ARGUMENT"
    by (simp only: Code_MakeStatus)
  ultimately show ?thesis using False by auto
qed

theorem Run_rejects_invalid_feed_names_witness:
  "\<exists>st. Run cpu_env inited_session [(''X'', float_tensor), (''Z'', float_tensor)] [''Y''] (Some [])
           = Inr (st, EndTimeAndRecordEvent ''model_run'' inited_session, []) \<and>
         Code st = INVALID_ARGUMENT \<and> sublist ''Z'' (ErrorMessage st)"
  using Run_rejects_invalid_feed_names [of inited_session
      "[(''X'', float_tensor), (''Z'', float_tensor)]" cpu_env "[''Y'']" "Some []"]
  by (simp add: inited_session_names unknown_names_def)

lemma CheckTypes_code: "Code (CheckTypes a e) = OK \<or> Code (CheckTypes a e) = INVALID_ARGUMENT"
  by (simp add: CheckTypes_def Status_OK_def MakeStatus_def)

lemma ValidateInputTypes_loop_code:
  "ValidateInputTypes_loop args feeds = Inr t \<Longrightarrow> Code t = OK \<or> Code t = INVALID_ARGUMENT"
proof (induction args)
  case Nil
  then show ?case by (auto simp: Status_OK_def)
next
  case (Cons arg args)
  then show ?case
    using CheckTypes_code
    by (auto simp: Let_def split: option.splits if_splits)
qed

lemma ValidateInputNames_code:
  "Code (ValidateInputNames s feeds) = OK \<or> Code (ValidateInputNames s feeds) = INVALID_ARGUMENT"
  by (cases "invalid_feed_names (model_input_names s) feeds")
     (simp add: ValidateInputNames_def Let_def Status_OK_def MakeStatus_def)

lemma ValidateInputs_code:
  "ValidateInputs s feeds = Inr t \<Longrightarrow> Code t = OK \<or> Code t = INVALID_ARGUMENT"
  using ValidateInputNames_code [of s feeds] ValidateInputTypes_loop_code [of "input_def_list s" feeds t]
  by (auto simp: ValidateInputs_def ValidateInputTypes_def Let_def split: if_splits)

lemma ValidateOutputs_invalid:
  assumes "p_fetches = None \<or> output_names = [] \<or>
           (\<exists>fetches. p_fetches = Some fetches \<and> fetches \<noteq> [] \<and>
                      length output_names \<noteq> length fetches) \<or>
           (\<exists>n \<in> set output_names. n \<notin> set (model_output_names s))"
  shows "Code (ValidateOutputs s output_names p_fetches) = INVALID_ARGUMENT"
proof (cases p_fetches)
  case None
  then show ?thesis by (simp add: ValidateOutputs_def MakeStatus_def)
next
  case (Some fetches)
  show ?thesis
  proof (cases "output_names = [] \<or> (fetches \<noteq> [] \<and> length output_names \<noteq> length fetches)")
    case True
    with Some show ?thesis by (auto simp: ValidateOutputs_def MakeStatus_def)
  next
    case False
    with assms Some have "\<not> fst (invalid_output_names (model_output_names s) output_names)"
      by (auto simp: invalid_output_names_valid)
    with Some False show ?thesis
      by (cases "invalid_output_names (model_output_names s) output_names")
         (auto simp: ValidateOutputs_def MakeStatus_def)
  qed
qed

lemma Run_validation_failed_outputs:
  assumes "is_inited s"
    and "ValidateInputs s feeds = Inr t"
    and "st = (if IsOK t then ValidateOutputs s output_names p_fetches else t)"
    and "\<not> IsOK st"
  shows "Run env s feeds output_names p_fetches = Inr (st, EndTimeAndRecordEvent ''model_run'' s, [])"
  using assms
  by (auto simp: Run_def Let_def Status_OK_def IsOK_def
      run_calls_not_OK run_end_calls_not_OK EndTimeAndRecordEvent_def)

text \<open>
  The claim C9 is about every \<open>Run\<close> call. On a session that is not initialized \<open>Run\<close>
  skips both validations and returns FAIL, also when no output is requested.
\<close>

theorem Run_uninitialized_returns_FAIL:
  "Run cpu_env loaded_session [(''X'', float_tensor)] [] (Some [])
     = Inr (MakeStatus FAIL ''Session not initialized.'',
            EndTimeAndRecordEvent ''model_run'' loaded_session, [])
   \<and> Code (MakeStatus FAIL ''Session not initialized.'') \<noteq> INVALID_ARGUMENT"
proof -
  have "\<not> is_inited loaded_session"
    by (simp add: loaded_session_def Load_model_uri_def new_session_def
      load_and_process_def DoPostLoadProcessing_def SaveModelMetadata_def Let_def IsOK_def
      Status_OK_def EndTimeAndRecordEvent_def abs_model_def)
  then show ?thesis
    by (simp add: Run_def Let_def IsOK_def MakeStatus_def run_calls_not_OK run_end_calls_not_OK
        EndTimeAndRecordEvent_def)
qed

text \<open>
  C9 (amended). On an initialized session on which the validation of the inputs runs to
  its end (with whatever status), when the fetch-vector pointer is null, or no output name
  is requested, or the fetch vector is non-empty with a size other than the number of
  output names, or a requested name is not a model output, \<open>Run\<close> returns
  INVALID\_ARGUMENT and has called no provider and no executor.
\<close>

theorem Run_rejects_invalid_outputs:
  assumes "is_inited s"
    and "ValidateInputs s feeds = Inr t"
    and "p_fetches = None \<or> output_names = [] \<or>
         (\<exists>fetches. p_fetches = Some fetches \<and> fetches \<noteq> [] \<and>
                    length output_names \<noteq> length fetches) \<or>
         (\<exists>n \<in> set output_names. n \<notin> set (model_output_names s))"
  shows "\<exists>st. Run env s feeds output_names p_fetches
                = Inr (st, EndTimeAndRecordEvent ''model_run'' s, []) \<and>
              Code st = INVALID_ARGUMENT"
proof -
  let ?st = "if IsOK t then ValidateOutputs s output_names p_fetches else t"
  have c: "Code ?st = INVALID_ARGUMENT"
    using ValidateInputs_code [OF assms(2)] ValidateOutputs_invalid [OF assms(3)]
    by (auto simp: IsOK_def)
  then have "\<not> IsOK ?st" by (simp add: IsOK_def)
  from Run_validation_failed_outputs [OF assms(1) assms(2) refl this] c
  show ?thesis by blast
qed

theorem Run_rejects_invalid_outputs_witness:
  "is_inited inited_session \<and>
   ValidateInputs inited_session [(''X'', float_tensor)] = Inr Status_OK \<and>
   (\<exists>st. Run cpu_env inited_session [(''X'', float_tensor)] [] (Some [])
           = Inr (st, EndTimeAndRecordEvent ''model_run'' inited_session, []) \<and>
         Code st = INVALID_ARGUMENT)"
proof -
  have v: "ValidateInputs inited_session [(''X'', float_tensor)] = Inr Status_OK"
    by (simp add: ValidateInputs_def ValidateInputNames_def ValidateInputTypes_def
        missing_required_inputs_def invalid_feed_names_def inited_session_names Let_def
        IsOK_def Status_OK_def float_tensor_def IsTensor_def CheckTypes_def)
  from Run_rejects_invalid_outputs [OF inited_session_names(1) v, of "Some []" "[]" cpu_env] v
  show ?thesis by (simp add: inited_session_names)
qed

subsection \<open>Identity elimination\<close>

lemma GetNode_UpdateNode:
  "GetNode (UpdateNode g i f) j = (if j = i then map_option f (GetNode g j) else GetNode g j)"
  by (auto simp: GetNode_def UpdateNode_def)

lemma GetNode_RemoveNode:
  "GetNode (RemoveNode g i) j = (if j = i then None else GetNode g j)"
  by (auto simp: GetNode_def RemoveNode_def)

lemma replace_def_single:
  "replace_def [(old, new)] d = (if d = old then new else d)"
  by (simp add: replace_def_def)

lemma ReplaceDefs_idem:
  "ReplaceDefs [(old, new)] (ReplaceDefs [(old, new)] n) = ReplaceDefs [(old, new)] n"
  by (simp add: ReplaceDefs_def replace_def_single comp_def)

lemma replace_loop:
  assumes "\<And>n. f (f n) = f n"
  shows "GetNode (fst (fold (\<lambda>it (g, m). (UpdateNode g it f, True)) es (g, m))) j
           = (if j \<in> set es then map_option f (GetNode g j) else GetNode g j)
         \<and> snd (fold (\<lambda>it (g, m). (UpdateNode g it f, True)) es (g, m)) = (m \<or> es \<noteq> [])"
proof (induction es arbitrary: g m)
  case Nil
  then show ?case by simp
next
  case (Cons e es)
  have "\<And>i. map_option f (map_option f (GetNode g i)) = map_option f (GetNode g i)"
    by (simp add: option.map_comp comp_def assms)
  then show ?case
    using Cons [of "UpdateNode g e f" True]
    by (auto simp: GetNode_UpdateNode)
qed

text \<open>
  C8. \<open>EliminateIdentity::SatisfyCondition\<close> is true for every node, and \<open>Apply\<close> on a node
  with an input and an output (an Identity has one of each) returns OK, has removed the
  node, and has replaced the Identity's output by its input in the input definitions of
  every consuming node; nodes that do not consume it are as before. With no consumer the
  node is removed all the same, and \<open>modified\<close> is left as it was.
\<close>

theorem EliminateIdentity_Apply_rewires:
  assumes "InputDefs node = id_input # ins" and "OutputDefs node = id_output # outs"
  shows "EliminateIdentity_SatisfyCondition graph node \<and>
         (\<exists>graph'.
            EliminateIdentity_Apply graph node modified
              = Inr (Status_OK, graph', modified \<or> OutputEdges node \<noteq> []) \<and>
            GetNode graph' (Index node) = None \<and>
            (\<forall>j consumer.
               j \<in> set (OutputEdges node) \<and> j \<noteq> Index node \<and> GetNode graph j = Some consumer \<longrightarrow>
               (\<exists>consumer'. GetNode graph' j = Some consumer' \<and>
                  InputDefs consumer' =
                    map (\<lambda>d. if d = id_output then id_input else d) (InputDefs consumer))) \<and>
            (\<forall>j. j \<notin> set (OutputEdges node) \<and> j \<noteq> Index node \<longrightarrow>
                  GetNode graph' j = GetNode graph j))"
proof -
  let ?f = "ReplaceDefs [(id_output, id_input)] :: 'a Node \<Rightarrow> 'a Node"
  let ?looped = "fold (\<lambda>it (g, m). (UpdateNode g it ?f, True)) (OutputEdges node) (graph, modified)"
  let ?graph' = "RemoveNode (fst ?looped) (Index node)"
  have loop: "\<And>j. GetNode (fst ?looped) j
                  = (if j \<in> set (OutputEdges node) then map_option ?f (GetNode graph j)
                     else GetNode graph j)"
       "snd ?looped = (modified \<or> OutputEdges node \<noteq> [])"
    using replace_loop [of ?f "OutputEdges node" graph modified, OF ReplaceDefs_idem]
    by blast+
  have a: "EliminateIdentity_Apply graph node modified
             = Inr (Status_OK, ?graph', modified \<or> OutputEdges node \<noteq> [])"
    using assms loop(2) by (simp add: EliminateIdentity_Apply_def Let_def)
  have r: "GetNode ?graph' (Index node) = None"
    by (simp add: GetNode_RemoveNode)
  have c: "\<forall>j consumer.
             j \<in> set (OutputEdges node) \<and> j \<noteq> Index node \<and> GetNode graph j = Some consumer \<longrightarrow>
             (\<exists>consumer'. GetNode ?graph' j = Some consumer' \<and>
                InputDefs consumer' =
                  map (\<lambda>d. if d = id_output then id_input else d) (InputDefs consumer))"
    by (auto simp: GetNode_RemoveNode loop(1) ReplaceDefs_def replace_def_single)
  have o: "\<forall>j. j \<notin> set (OutputEdges node) \<and> j \<noteq> Index node \<longrightarrow>
                GetNode ?graph' j = GetNode graph j"
    by (simp add: GetNode_RemoveNode loop(1))
  from a r c o show ?thesis
    by (simp add: EliminateIdentity_SatisfyCondition_def)
qed

theorem EliminateIdentity_Apply_rewires_witness:
  "EliminateIdentity_Apply abs_id_max (plain_node 1 ''Identity'' [''A''] [''I''] [0] [2]) False
     = Inr (Status_OK,
            abs_id_max\<lparr>Nodes := [Some (plain_node 0 ''Abs'' [''X''] [''A''] [] [1]), None,
                                Some (plain_node 2 ''Max'' [''A'', ''A''] [''Y''] [1, 1] [])]\<rparr>,
            True)"
proof -
  from EliminateIdentity_Apply_rewires [of "plain_node 1 ''Identity'' [''A''] [''I''] [0] [2]"
      "''A''" "[]" "''I''" "[]" abs_id_max False]
  obtain graph' where
    "EliminateIdentity_Apply abs_id_max (plain_node 1 ''Identity'' [''A''] [''I''] [0] [2]) False
       = Inr (Status_OK, graph', True)"
    by (auto simp: plain_node_def)
  moreover have
    "EliminateIdentity_Apply abs_id_max (plain_node 1 ''Identity'' [''A''] [''I''] [0] [2]) False
     = Inr (Status_OK,
            abs_id_max\<lparr>Nodes := [Some (plain_node 0 ''Abs'' [''X''] [''A''] [] [1]), None,
                                Some (plain_node 2 ''Max'' [''A'', ''A''] [''Y''] [1, 1] [])]\<rparr>,
            True)"
    by (simp add: EliminateIdentity_Apply_def plain_node_def abs_id_max_def UpdateNode_def
        RemoveNode_def ReplaceDefs_def replace_def_def Let_def)
  ultimately show ?thesis by simp
qed

subsection \<open>Conv fusions\<close>










lemma scaled_by_axis_nth:
  "p < length xs \<Longrightarrow>
     scaled_by_axis ops dims xs factors axis ! p =
       op_mul ops (xs ! p)
         (factors ! (if length factors = 1 then 0 else p div nat (prod_list (drop axis dims))))"
  by (simp add: scaled_by_axis_def nth_enumerate_eq)


lemma fusion_loop_all_skipped:
  assumes "\<And>i n. GetNode g i = Some n \<Longrightarrow> body g removed n = Continue (g, removed)"
  shows "fusion_loop body idxs (g, removed) = Continue (g, removed)"
  using assms by (induction idxs) (auto split: option.splits)

lemma ConvBNFusion_node_skip:
  "not_fusable graph node \<Longrightarrow>
     ConvBNFusion_node ops graph removed_nodes node = Continue (graph, removed_nodes)"
  by (auto simp: not_fusable_def ConvBNFusion_node_def split: option.splits)

lemma ConvMulFusion_node_skip:
  "not_fusable graph node \<Longrightarrow>
     ConvMulFusion_node ops graph removed_nodes node = Continue (graph, removed_nodes)"
  by (auto simp: not_fusable_def ConvMulFusion_node_def split: option.splits)

text \<open>
  C4. A Conv node whose number of output edges is not one, or whose single successor has
  an output among the graph outputs, is skipped by the loop bodies of \<open>ConvBNFusion::Apply\<close>
  and \<open>ConvMulFusion::Apply\<close>: the graph (its nodes and initializers) and the list of
  nodes to remove are as before, and no status is returned from inside the loop. When every
  node of the graph is of that kind, both rules return OK and leave the graph and
  \<open>modified\<close> as they were.
\<close>

theorem Conv_fusions_skip_unfusable:
  "(not_fusable graph node \<longrightarrow>
      ConvBNFusion_node ops graph removed_nodes node = Continue (graph, removed_nodes) \<and>
      ConvMulFusion_node ops graph removed_nodes node = Continue (graph, removed_nodes)) \<and>
   ((\<forall>i n. GetNode graph i = Some n \<longrightarrow> not_fusable graph n) \<longrightarrow>
      ConvBNFusion_Apply ops resolve graph modified = Inr (Status_OK, graph, modified) \<and>
      ConvMulFusion_Apply ops resolve graph modified = Inr (Status_OK, graph, modified))"
proof (intro conjI impI)
  assume a: "\<forall>i n. GetNode graph i = Some n \<longrightarrow> not_fusable graph n"
  have "fusion_loop (ConvBNFusion_node ops) (LiveNodes graph) (graph, []) = Continue (graph, [])"
    using a by (intro fusion_loop_all_skipped ConvBNFusion_node_skip) blast
  then show "ConvBNFusion_Apply ops resolve graph modified = Inr (Status_OK, graph, modified)"
    by (simp add: ConvBNFusion_Apply_def fusion_Apply_def remove_nodes_def)
  have "fusion_loop (ConvMulFusion_node ops) (LiveNodes graph) (graph, []) = Continue (graph, [])"
    using a by (intro fusion_loop_all_skipped ConvMulFusion_node_skip) blast
  then show "ConvMulFusion_Apply ops resolve graph modified = Inr (Status_OK, graph, modified)"
    by (simp add: ConvMulFusion_Apply_def fusion_Apply_def remove_nodes_def)
qed (simp_all add: ConvBNFusion_node_skip ConvMulFusion_node_skip)
























text \<open>The two rules on the concrete graph.\<close>

lemma GetNode_conv_bn_relu:
  "GetNode (conv_bn_relu outputs) i =
     (if i = 0 then Some conv_ex else if i = 1 then Some bn_ex
      else if i = 2 then Some relu_ex else None)"
  by (auto simp: GetNode_def conv_bn_relu_def nth_Cons split: nat.splits)

lemma GraphOutputs_conv_bn_relu: "GraphOutputs (conv_bn_relu outputs) = outputs"
  by (simp add: conv_bn_relu_def)

lemma conv_bn_relu_all_not_fusable:
  assumes "GetNode (conv_bn_relu [''Y'', ''Z'']) i = Some n"
  shows "not_fusable (conv_bn_relu [''Y'', ''Z'']) n"
proof -
  have c: "not_fusable (conv_bn_relu [''Y'', ''Z'']) conv_ex"
    by (simp add: not_fusable_def GetNode_conv_bn_relu IsNodeOutputsInGraphOutputs_def
        GraphOutputs_conv_bn_relu conv_ex_def bn_ex_def)
  have b: "not_fusable (conv_bn_relu [''Y'', ''Z'']) bn_ex"
    by (simp add: not_fusable_def GetNode_conv_bn_relu IsNodeOutputsInGraphOutputs_def
        GraphOutputs_conv_bn_relu relu_ex_def bn_ex_def)
  have r: "not_fusable (conv_bn_relu [''Y'', ''Z'']) relu_ex"
    by (simp add: not_fusable_def relu_ex_def)
  from assms have "n = conv_ex \<or> n = bn_ex \<or> n = relu_ex"
    by (auto simp: GetNode_conv_bn_relu split: if_splits)
  with c b r show ?thesis by blast
qed

theorem Conv_fusions_skip_unfusable_witness:
  "ConvBNFusion_node real_ops (conv_bn_relu [''Y'', ''Z'']) [] conv_ex
     = Continue (conv_bn_relu [''Y'', ''Z''], []) \<and>
   ConvMulFusion_node real_ops (conv_bn_relu [''Y'', ''Z'']) [] conv_ex
     = Continue (conv_bn_relu [''Y'', ''Z''], []) \<and>
   ConvBNFusion_Apply real_ops (\<lambda>g. (Status_OK, g)) (conv_bn_relu [''Y'', ''Z'']) False
     = Inr (Status_OK, conv_bn_relu [''Y'', ''Z''], False) \<and>
   ConvMulFusion_Apply real_ops (\<lambda>g. (Status_OK, g)) (conv_bn_relu [''Y'', ''Z'']) False
     = Inr (Status_OK, conv_bn_relu [''Y'', ''Z''], False)"
proof -
  have a: "not_fusable (conv_bn_relu [''Y'', ''Z'']) conv_ex"
    by (rule conv_bn_relu_all_not_fusable [of 0]) (simp add: GetNode_conv_bn_relu)
  have b: "\<forall>i n. GetNode (conv_bn_relu [''Y'', ''Z'']) i = Some n \<longrightarrow>
                 not_fusable (conv_bn_relu [''Y'', ''Z'']) n"
    using conv_bn_relu_all_not_fusable by blast
  from Conv_fusions_skip_unfusable [of "conv_bn_relu [''Y'', ''Z'']" conv_ex real_ops "[]"
      "\<lambda>g. (Status_OK, g)" False] a b
  show ?thesis by blast
qed














end
